theory Spec2Isabelle
  imports Main "HOL-Library.Word" "HOL-Library.Multiset"
begin

section \<open>The DEX state transition (pkg/dex/transition.go) and the consensus validator\<close>

text \<open>
  The Go code is embedded function by function. Unsigned 64-bit quantities are
  \<open>64 word\<close> (addition and subtraction wrap as Go's do), \<open>uint8\<close> is \<open>8 word\<close>, Go's
  \<open>int\<close> is \<open>int\<close> where it can be negative. A panic is a value \<open>Inl e\<close> of the result
  type \<open>error + 'a\<close>.
\<close>

subsection \<open>Errors\<close>

datatype error =
    RecordAfterFinalized          \<comment> \<open>panic("record should never be called after finalized")\<close>
  | RemainNotPositive             \<comment> \<open>refundAfterCancel: cancel.Quant <= cancel.Executed\<close>
  | PendingSmallerThanRefund      \<comment> \<open>refundAfterCancel: pending < refund\<close>
  | MatchedOrderNotFound          \<comment> \<open>placeOrder: "impossible: can not find matched order"\<close>
  | InsufficientPending           \<comment> \<open>placeOrder: "insufficient pending balance"\<close>
  | ExpiringOrderNotFound         \<comment> \<open>expireOrders: "can not find expiring order"\<close>
  | NegativeRank                  \<comment> \<open>rankToWeight: panic(rank)\<close>
  | NilPointer                    \<comment> \<open>a method call or field access through a nil pointer\<close>
  | IndexOutOfRange               \<comment> \<open>a slice index outside the slice\<close>
  | ConversionOutOfRange          \<comment> \<open>uint64(f) of a float64 beyond uint64: Go leaves the value to the implementation\<close>

subsection \<open>Machine integers\<close>

type_synonym u64 = "64 word"
type_synonym u8 = "8 word"

subsection \<open>calcQuoteQuant\<close>

text \<open>
  Modelled from the spec: the constant \<open>OrderPriceDecimals\<close> is declared in another file of
  the package; the spec calls it a fixed global constant and its scenarios use the value 8.
\<close>

definition OrderPriceDecimals :: nat where
  "OrderPriceDecimals = 8"

text \<open>The constant \<open>OrderPriceDecimals\<close> as the \<open>uint8\<close> argument the callers pass.\<close>

definition OrderPriceDecimals_u8 :: u8 where
  "OrderPriceDecimals_u8 = word_of_nat OrderPriceDecimals"

text \<open>
  \<open>uint64(math.Pow10(n))\<close>. \<open>math.Pow10\<close> returns the float64 nearest to \<open>10^n\<close>, which is
  \<open>10^n\<close> itself up to \<open>n = 22\<close>; the conversion to \<open>uint64\<close> is exact while the value is
  below \<open>2^64\<close>, that is for \<open>n \<le> 19\<close>. Beyond that Go leaves the converted value to the
  implementation, and the model stops with \<open>ConversionOutOfRange\<close>.
\<close>

definition Pow10_uint64 :: "nat \<Rightarrow> error + nat" where
  "Pow10_uint64 n = (if n \<le> 19 then Inr (10 ^ n) else Inl ConversionOutOfRange)"

text \<open>
  The body works on \<open>big.Int\<close> values, here \<open>nat\<close>: two multiplications, two divisions
  (\<open>big.Int.Div\<close> is Euclidean division, on non-negative operands the floor), and
  \<open>result.Uint64()\<close>, which returns the low 64 bits. The parameter \<open>priceDecimals\<close> is not
  read: the price denominator comes from the global \<open>OrderPriceDecimals\<close>.
\<close>

definition calcQuoteQuant :: "u64 \<Rightarrow> u8 \<Rightarrow> u64 \<Rightarrow> u8 \<Rightarrow> u8 \<Rightarrow> error + u64" where
  "calcQuoteQuant baseQuantUnit quoteDecimals priceQuantUnit priceDecimals baseDecimals =
     (let quantUnit = unat baseQuantUnit in
      case Pow10_uint64 (unat quoteDecimals) of Inl e \<Rightarrow> Inl e | Inr quoteDenominator \<Rightarrow>
      let priceU = unat priceQuantUnit in
      case Pow10_uint64 OrderPriceDecimals of Inl e \<Rightarrow> Inl e | Inr priceDenominator \<Rightarrow>
      case Pow10_uint64 (unat baseDecimals) of Inl e \<Rightarrow> Inl e | Inr baseDenominator \<Rightarrow>
      let result = quantUnit * quoteDenominator;
          result = result * priceU;
          result = result div baseDenominator;
          result = result div priceDenominator
      in Inr (word_of_nat result))"

subsection \<open>Data model\<close>

text \<open>
  Modelled from the spec: the types below (tokens, markets, orders, balances, accounts, the
  persistent State, the order book, the token cache, the transaction variants) are declared
  in other files of the repository than transition.go. Their fields are the ones
  transition.go reads and writes, with the meaning the spec's data model gives them.
\<close>

type_synonym TokenID = u64
type_synonym TokenSymbol = string
type_synonym Addr = nat      \<comment> \<open>consensus.Addr: the hash of a public key\<close>
type_synonym PK = nat        \<comment> \<open>a public key\<close>
type_synonym Hash = nat      \<comment> \<open>consensus.Hash\<close>

record TokenInfo =
  Symbol :: TokenSymbol
  Decimals :: u8
  TotalUnits :: u64

record Token =
  Token_ID :: TokenID
  Token_Info :: TokenInfo

record MarketSymbol =
  Base :: TokenID
  Quote :: TokenID

text \<open>Modelled from the spec: \<open>MarketSymbol.Valid()\<close> requires base and quote to differ.\<close>

definition Valid :: "MarketSymbol \<Rightarrow> bool" where
  "Valid m = (Base m \<noteq> Quote m)"

record OrderID =
  OrderID_ID :: u64
  OrderID_Market :: MarketSymbol

record Frozen =
  Frozen_AvailableRound :: u64
  Frozen_Quant :: u64

record Balance =
  Available :: u64
  Pending :: u64
  Frozen :: "Frozen list"

text \<open>Go's zero value \<open>Balance{}\<close>.\<close>

definition zeroBalance :: Balance where
  "zeroBalance = \<lparr>Available = 0, Pending = 0, Frozen = []\<rparr>"

record Order =
  Order_Owner :: Addr
  Order_SellSide :: bool
  Order_Quant :: u64
  Order_Price :: u64
  Order_ExpireRound :: u64

text \<open>\<open>PendingOrder\<close> embeds \<open>Order\<close>: Go's \<open>p.Quant\<close> is \<open>Order_Quant (PO_Order p)\<close>.\<close>

record PendingOrder =
  PO_ID :: OrderID
  PO_Order :: Order
  PO_Executed :: u64

record Execution =
  Exec_ID :: u64
  Exec_Owner :: Addr
  Exec_SellSide :: bool
  Exec_Price :: u64
  Exec_Quant :: u64
  Exec_Taker :: bool

record ExecutionReport =
  ER_Round :: u64
  ER_ID :: OrderID
  ER_SellSide :: bool
  ER_TradePrice :: u64
  ER_Quant :: u64
  ER_Fee :: u64

record orderExpiration =
  OE_ID :: OrderID
  OE_Owner :: Addr

record freezeToken =
  FT_Addr :: Addr
  FT_TokenID :: TokenID
  FT_Quant :: u64

subsubsection \<open>Account\<close>

record Account =
  Account_PK :: PK
  balances :: "TokenID \<Rightarrow> Balance"
  pendingOrders :: "OrderID \<rightharpoonup> PendingOrder"
  executionReports :: "ExecutionReport list"

definition Balance :: "Account \<Rightarrow> TokenID \<Rightarrow> Balance" where
  "Balance a tokenID = balances a tokenID"

definition UpdateBalance :: "Account \<Rightarrow> TokenID \<Rightarrow> Balance \<Rightarrow> Account" where
  "UpdateBalance a tokenID b = a\<lparr>balances := (balances a)(tokenID := b)\<rparr>"

definition PendingOrder :: "Account \<Rightarrow> OrderID \<Rightarrow> PendingOrder option" where
  "PendingOrder a oid = pendingOrders a oid"

definition UpdatePendingOrder :: "Account \<Rightarrow> PendingOrder \<Rightarrow> Account" where
  "UpdatePendingOrder a p = a\<lparr>pendingOrders := (pendingOrders a)(PO_ID p \<mapsto> p)\<rparr>"

definition RemovePendingOrder :: "Account \<Rightarrow> OrderID \<Rightarrow> Account" where
  "RemovePendingOrder a oid = a\<lparr>pendingOrders := (pendingOrders a)(oid := None)\<rparr>"

definition AddExecutionReport :: "Account \<Rightarrow> ExecutionReport \<Rightarrow> Account" where
  "AddExecutionReport a r = a\<lparr>executionReports := executionReports a @ [r]\<rparr>"

subsubsection \<open>Order book\<close>

text \<open>
  Modelled from the spec: a per-market book holds the resting orders of its two sides, each
  under the id the book gave it, and the next id to assign. \<open>Cancel(id)\<close> removes the order
  identified by id regardless of side and is a no-op if it is absent. \<open>Limit\<close>, the matching
  engine, is not modelled: the functions that call it take it as the parameter
  \<open>Limit\<close> of \<open>externals\<close> below.
\<close>

record orderBook =
  bids :: "(u64 \<times> Order) list"
  asks :: "(u64 \<times> Order) list"
  nextID :: u64

definition newOrderBook :: orderBook where
  "newOrderBook = \<lparr>bids = [], asks = [], nextID = 0\<rparr>"

definition Cancel :: "orderBook \<Rightarrow> u64 \<Rightarrow> orderBook" where
  "Cancel book i =
     book\<lparr>bids := filter (\<lambda>e. fst e \<noteq> i) (bids book),
          asks := filter (\<lambda>e. fst e \<noteq> i) (asks book)\<rparr>"

definition inBook :: "orderBook \<Rightarrow> u64 \<Rightarrow> bool" where
  "inBook book i = (i \<in> fst ` set (bids book) \<or> i \<in> fst ` set (asks book))"

subsubsection \<open>State\<close>

text \<open>
  Modelled from the spec: State holds the accounts by address, the tokens, the saved order
  book of each market, the order-expiration schedule and the freeze schedule, both from a
  round to a list in insertion order. A \<open>*Account\<close> obtained from the State is a mutable
  view of the one account the State holds for that address, so in the model a pointer to an
  account is its address and every read and write goes through the store \<open>accounts\<close>; the
  nil pointer is an address the store has no account for. \<open>placeOrder\<close> relies on this
  sharing: it writes the new pending order through \<open>owner\<close> and, for the taker's
  executions, finds it again through \<open>t.state.Account(exec.Owner)\<close>.
\<close>

record State =
  accounts :: "Addr \<rightharpoonup> Account"
  tokens :: "Token list"
  savedOrderBooks :: "MarketSymbol \<rightharpoonup> orderBook"
  orderExpirations :: "u64 \<Rightarrow> orderExpiration list"
  freezeTokens :: "u64 \<Rightarrow> freezeToken list"

definition updateAccount :: "State \<Rightarrow> Addr \<Rightarrow> Account \<Rightarrow> State" where
  "updateAccount s a acc = s\<lparr>accounts := (accounts s)(a \<mapsto> acc)\<rparr>"

definition UpdateToken :: "State \<Rightarrow> Token \<Rightarrow> State" where
  "UpdateToken s token = s\<lparr>tokens := tokens s @ [token]\<rparr>"

definition loadOrderBook :: "State \<Rightarrow> MarketSymbol \<Rightarrow> orderBook option" where
  "loadOrderBook s m = savedOrderBooks s m"

definition saveOrderBook :: "State \<Rightarrow> MarketSymbol \<Rightarrow> orderBook \<Rightarrow> State" where
  "saveOrderBook s m b = s\<lparr>savedOrderBooks := (savedOrderBooks s)(m \<mapsto> b)\<rparr>"

definition AddOrderExpirations :: "State \<Rightarrow> u64 \<Rightarrow> orderExpiration list \<Rightarrow> State" where
  "AddOrderExpirations s r ids = s\<lparr>orderExpirations := (orderExpirations s)(r := orderExpirations s r @ ids)\<rparr>"

definition GetOrderExpirations :: "State \<Rightarrow> u64 \<Rightarrow> orderExpiration list" where
  "GetOrderExpirations s r = orderExpirations s r"

definition RemoveOrderExpirations :: "State \<Rightarrow> u64 \<Rightarrow> OrderID list \<Rightarrow> State" where
  "RemoveOrderExpirations s r filled =
     s\<lparr>orderExpirations := (orderExpirations s)(r := filter (\<lambda>e. OE_ID e \<notin> set filled) (orderExpirations s r))\<rparr>"

definition FreezeToken :: "State \<Rightarrow> u64 \<Rightarrow> freezeToken \<Rightarrow> State" where
  "FreezeToken s r entry = s\<lparr>freezeTokens := (freezeTokens s)(r := freezeTokens s r @ [entry])\<rparr>"

definition GetFreezeTokens :: "State \<Rightarrow> u64 \<Rightarrow> freezeToken list" where
  "GetFreezeTokens s r = freezeTokens s r"

subsubsection \<open>Token cache\<close>

text \<open>
  Modelled from the spec: the token cache is the in-memory index of the persisted tokens
  (id to info, and the set of symbols); \<open>Size\<close> is their number and \<open>Exists\<close> compares
  symbols case-insensitively, the way issueToken compares with the staged tokens.
  \<open>strings.ToUpper\<close> is modelled on ASCII letters; other bytes are left as they are.
\<close>

definition toUpperChar :: "char \<Rightarrow> char" where
  "toUpperChar c =
     (case map_of (zip ''abcdefghijklmnopqrstuvwxyz'' ''ABCDEFGHIJKLMNOPQRSTUVWXYZ'') c of
        Some u \<Rightarrow> u
      | None \<Rightarrow> c)"

definition ToUpper :: "string \<Rightarrow> string" where
  "ToUpper s = map toUpperChar s"

record TokenCache =
  cached :: "Token list"

definition idToInfo :: "TokenCache \<Rightarrow> TokenID \<Rightarrow> TokenInfo option" where
  "idToInfo c i = map_option Token_Info (find (\<lambda>t. Token_ID t = i) (cached c))"

definition Info :: "TokenCache \<Rightarrow> TokenID \<Rightarrow> TokenInfo option" where
  "Info c i = idToInfo c i"

definition Exists :: "TokenCache \<Rightarrow> TokenSymbol \<Rightarrow> bool" where
  "Exists c s = list_ex (\<lambda>t. ToUpper (Symbol (Token_Info t)) = ToUpper s) (cached c)"

definition Size :: "TokenCache \<Rightarrow> nat" where
  "Size c = length (cached c)"

subsubsection \<open>Transactions\<close>

record PlaceOrderTxn =
  POT_SellSide :: bool
  POT_Quant :: u64
  POT_Price :: u64
  POT_ExpireRound :: u64
  POT_Market :: MarketSymbol

record CancelOrderTxn =
  COT_ID :: OrderID

record IssueTokenTxn =
  ITT_Info :: TokenInfo

record SendTokenTxn =
  STT_TokenID :: TokenID
  STT_To :: PK
  STT_Quant :: u64

record FreezeTokenTxn =
  FTT_TokenID :: TokenID
  FTT_AvailableRound :: u64
  FTT_Quant :: u64

text \<open>\<open>txn.Decoded\<close> is an interface value; \<open>OtherTxn\<close> stands for every other dynamic type.\<close>

datatype Decoded =
    PlaceOrder PlaceOrderTxn
  | CancelOrder CancelOrderTxn
  | IssueToken IssueTokenTxn
  | SendToken SendTokenTxn
  | FreezeTokenT FreezeTokenTxn
  | OtherTxn

record Txn =
  Txn_Raw :: "8 word list"
  Txn_Decoded :: Decoded

subsubsection \<open>Transition\<close>

text \<open>
  The struct of transition.go. The three Go maps are partial or total functions;
  \<open>dirtyOrderBooks\<close> is a \<open>map[MarketSymbol]bool\<close>, whose missing keys read \<open>false\<close>.
\<close>

record Transition =
  roundT :: u64
  finalized :: bool
  tokenCreations :: "Token list"
  txns :: "Txn list"
  expirations :: "u64 \<rightharpoonup> orderExpiration list"
  filledOrders :: "PendingOrder list"
  state :: State
  orderBooks :: "MarketSymbol \<rightharpoonup> orderBook"
  dirtyOrderBooks :: "MarketSymbol \<Rightarrow> bool"
  tokenCache :: TokenCache

text \<open>
  The collaborators that transition.go calls out of other files of the repository, taken
  as parameters: \<open>PK.Addr()\<close>, \<open>validateNonce\<close> (a query: it returns the account, whether the
  nonce is ready, and whether it is valid), the book's \<open>Limit\<close> (the book after matching,
  the id it assigned, the executions), \<open>State.CommitCache\<close> and \<open>State.Hash\<close>.
\<close>

record externals =
  PK_Addr :: "PK \<Rightarrow> Addr"
  validateNonce :: "State \<Rightarrow> Txn \<Rightarrow> Addr \<times> bool \<times> bool"
  Limit :: "orderBook \<Rightarrow> Order \<Rightarrow> orderBook \<times> u64 \<times> Execution list"
  CommitCache :: "State \<Rightarrow> State"
  StateHashOf :: "State \<Rightarrow> Hash"

text \<open>Modelled from the spec: \<open>State.Account(addr)\<close> (nil if the State has no such account) and
  \<open>State.NewAccount(pk)\<close>, which creates the empty account of a public key.\<close>

definition Account :: "State \<Rightarrow> Addr \<Rightarrow> Account option" where
  "Account s a = accounts s a"

definition NewAccount :: "externals \<Rightarrow> State \<Rightarrow> PK \<Rightarrow> State" where
  "NewAccount X s pk =
     updateAccount s (PK_Addr X pk)
       \<lparr>Account_PK = pk, balances = (\<lambda>_. zeroBalance), pendingOrders = Map.empty,
        executionReports = []\<rparr>"

subsection \<open>transition.go: the transaction handlers\<close>

text \<open>\<open>getOrderBook\<close> returns the book and the transition, whose \<open>orderBooks\<close> now caches it.\<close>

definition getOrderBook :: "Transition \<Rightarrow> MarketSymbol \<Rightarrow> orderBook \<times> Transition" where
  "getOrderBook t m =
     (case orderBooks t m of
        Some book \<Rightarrow> (book, t)
      | None \<Rightarrow>
          let book = (case loadOrderBook (state t) m of Some b \<Rightarrow> b | None \<Rightarrow> newOrderBook)
          in (book, t\<lparr>orderBooks := (orderBooks t)(m \<mapsto> book)\<rparr>))"

definition refundAfterCancel ::
    "Transition \<Rightarrow> Addr \<Rightarrow> PendingOrder \<Rightarrow> MarketSymbol \<Rightarrow> error + Transition" where
  "refundAfterCancel t owner cancel market =
     (if Order_Quant (PO_Order cancel) \<le> PO_Executed cancel then Inl RemainNotPositive
      else
        let refund = Order_Quant (PO_Order cancel) - PO_Executed cancel in
        case Account (state t) owner of None \<Rightarrow> Inl NilPointer | Some acc \<Rightarrow>
        if Order_SellSide (PO_Order cancel) then
          let baseBalance = Balance acc (Base market) in
          if Pending baseBalance < refund then Inl PendingSmallerThanRefund
          else
            let baseBalance = baseBalance\<lparr>Pending := Pending baseBalance - refund\<rparr>;
                baseBalance = baseBalance\<lparr>Available := Available baseBalance + refund\<rparr>
            in Inr (t\<lparr>state := updateAccount (state t) owner
                                  (UpdateBalance acc (Base market) baseBalance)\<rparr>)
        else
          let quoteBalance = Balance acc (Quote market) in
          case idToInfo (tokenCache t) (Quote market) of None \<Rightarrow> Inl NilPointer | Some quoteInfo \<Rightarrow>
          case idToInfo (tokenCache t) (Base market) of None \<Rightarrow> Inl NilPointer | Some baseInfo \<Rightarrow>
          case calcQuoteQuant refund (Decimals quoteInfo) (Order_Price (PO_Order cancel))
                 OrderPriceDecimals_u8 (Decimals baseInfo) of
            Inl e \<Rightarrow> Inl e
          | Inr pendingQuant \<Rightarrow>
              if Pending quoteBalance < pendingQuant then Inl PendingSmallerThanRefund
              else
                let quoteBalance = quoteBalance\<lparr>Pending := Pending quoteBalance - pendingQuant\<rparr>;
                    quoteBalance = quoteBalance\<lparr>Available := Available quoteBalance + pendingQuant\<rparr>
                in Inr (t\<lparr>state := updateAccount (state t) owner
                                      (UpdateBalance acc (Quote market) quoteBalance)\<rparr>))"

definition cancelOrder :: "Transition \<Rightarrow> Addr \<Rightarrow> CancelOrderTxn \<Rightarrow> error + (bool \<times> Transition)" where
  "cancelOrder t owner txn =
     (case Account (state t) owner of None \<Rightarrow> Inl NilPointer | Some acc \<Rightarrow>
      case PendingOrder acc (COT_ID txn) of
        None \<Rightarrow> Inr (False, t)
      | Some cancel \<Rightarrow>
          let market = OrderID_Market (COT_ID txn);
              (book, t) = getOrderBook t market;
              book = Cancel book (OrderID_ID (COT_ID txn));
              t = t\<lparr>orderBooks := (orderBooks t)(market \<mapsto> book)\<rparr>;
              t = t\<lparr>dirtyOrderBooks := (dirtyOrderBooks t)(market := True)\<rparr>;
              t = t\<lparr>state := updateAccount (state t) owner (RemovePendingOrder acc (COT_ID txn))\<rparr>
          in case refundAfterCancel t owner cancel market of
               Inl e \<Rightarrow> Inl e
             | Inr t \<Rightarrow> Inr (True, t))"

text \<open>
  For the proofs: the transition on which \<open>cancelOrder\<close> calls \<open>refundAfterCancel\<close>, that is,
  \<open>cancelOrder\<close> up to the refund for an order that is pending.
\<close>

definition cancelled :: "Transition \<Rightarrow> Addr \<Rightarrow> Account \<Rightarrow> CancelOrderTxn \<Rightarrow> Transition" where
  "cancelled t owner acc txn =
     (let market = OrderID_Market (COT_ID txn);
          (book, t) = getOrderBook t market;
          book = Cancel book (OrderID_ID (COT_ID txn));
          t = t\<lparr>orderBooks := (orderBooks t)(market \<mapsto> book)\<rparr>;
          t = t\<lparr>dirtyOrderBooks := (dirtyOrderBooks t)(market := True)\<rparr>
      in t\<lparr>state := updateAccount (state t) owner (RemovePendingOrder acc (COT_ID txn))\<rparr>)"

text \<open>
  The body of the loop over \<open>executions\<close> in \<open>placeOrder\<close> (lines 287 to 340): one
  execution applied to the account of its owner.
\<close>

definition applyExecution ::
    "Transition \<Rightarrow> MarketSymbol \<Rightarrow> u64 \<Rightarrow> TokenInfo \<Rightarrow> TokenInfo \<Rightarrow> Execution \<Rightarrow> error + Transition" where
  "applyExecution t market round baseInfo quoteInfo exec =
     (case Account (state t) (Exec_Owner exec) of None \<Rightarrow> Inl NilPointer | Some acc \<Rightarrow>
      let orderID = \<lparr>OrderID_ID = Exec_ID exec, OrderID_Market = market\<rparr>;
          report = \<lparr>ER_Round = round, ER_ID = orderID, ER_SellSide = Exec_SellSide exec,
                    ER_TradePrice = Exec_Price exec, ER_Quant = Exec_Quant exec, ER_Fee = 0\<rparr>;
          acc = AddExecutionReport acc report
      in
      case PendingOrder acc orderID of None \<Rightarrow> Inl MatchedOrderNotFound | Some executedOrder \<Rightarrow>
      let executedOrder = executedOrder\<lparr>PO_Executed := PO_Executed executedOrder + Exec_Quant exec\<rparr>;
          full = (PO_Executed executedOrder = Order_Quant (PO_Order executedOrder));
          acc = (if full then RemovePendingOrder acc orderID
                 else UpdatePendingOrder acc executedOrder);
          t = (if full then t\<lparr>filledOrders := filledOrders t @ [executedOrder]\<rparr> else t);
          baseBalance = Balance acc (Base market);
          quoteBalance = Balance acc (Quote market)
      in
      if Exec_SellSide exec then
        if Pending baseBalance < Exec_Quant exec then Inl InsufficientPending
        else
          let baseBalance = baseBalance\<lparr>Pending := Pending baseBalance - Exec_Quant exec\<rparr> in
          case calcQuoteQuant (Exec_Quant exec) (Decimals quoteInfo) (Exec_Price exec)
                 OrderPriceDecimals_u8 (Decimals baseInfo) of
            Inl e \<Rightarrow> Inl e
          | Inr recvQuant \<Rightarrow>
              let quoteBalance = quoteBalance\<lparr>Available := Available quoteBalance + recvQuant\<rparr>;
                  acc = UpdateBalance acc (Base market) baseBalance;
                  acc = UpdateBalance acc (Quote market) quoteBalance
              in Inr (t\<lparr>state := updateAccount (state t) (Exec_Owner exec) acc\<rparr>)
      else
        let recvQuant = Exec_Quant exec in
        case calcQuoteQuant (Exec_Quant exec) (Decimals quoteInfo)
               (Order_Price (PO_Order executedOrder)) OrderPriceDecimals_u8 (Decimals baseInfo) of
          Inl e \<Rightarrow> Inl e
        | Inr pendingQuant \<Rightarrow>
        case calcQuoteQuant (Exec_Quant exec) (Decimals quoteInfo) (Exec_Price exec)
               OrderPriceDecimals_u8 (Decimals baseInfo) of
          Inl e \<Rightarrow> Inl e
        | Inr givenQuant \<Rightarrow>
            if Pending quoteBalance < pendingQuant then Inl InsufficientPending
            else
              let quoteBalance = quoteBalance\<lparr>Pending := Pending quoteBalance - pendingQuant\<rparr>;
                  quoteBalance = quoteBalance\<lparr>Available := Available quoteBalance + pendingQuant\<rparr>;
                  quoteBalance = quoteBalance\<lparr>Available := Available quoteBalance - givenQuant\<rparr>;
                  baseBalance = baseBalance\<lparr>Available := Available baseBalance + recvQuant\<rparr>;
                  acc = UpdateBalance acc (Base market) baseBalance;
                  acc = UpdateBalance acc (Quote market) quoteBalance
              in Inr (t\<lparr>state := updateAccount (state t) (Exec_Owner exec) acc\<rparr>))"

fun applyExecutions ::
    "Transition \<Rightarrow> MarketSymbol \<Rightarrow> u64 \<Rightarrow> TokenInfo \<Rightarrow> TokenInfo \<Rightarrow> Execution list \<Rightarrow> error + Transition" where
  "applyExecutions t market round baseInfo quoteInfo [] = Inr t"
| "applyExecutions t market round baseInfo quoteInfo (exec # executions) =
     (case applyExecution t market round baseInfo quoteInfo exec of
        Inl e \<Rightarrow> Inl e
      | Inr t' \<Rightarrow> applyExecutions t' market round baseInfo quoteInfo executions)"

text \<open>
  \<open>placeOrder\<close> from the construction of the order on (lines 265 to 342): the order goes to
  the book, the owner's pending order and the expiration are recorded, the executions are
  applied.
\<close>

definition placeOrderBook ::
    "externals \<Rightarrow> Transition \<Rightarrow> Addr \<Rightarrow> PlaceOrderTxn \<Rightarrow> u64 \<Rightarrow> TokenInfo \<Rightarrow> TokenInfo
       \<Rightarrow> error + (bool \<times> Transition)" where
  "placeOrderBook X t owner txn round baseInfo quoteInfo =
     (case Account (state t) owner of None \<Rightarrow> Inl NilPointer | Some ownerAcc \<Rightarrow>
      let order = \<lparr>Order_Owner = PK_Addr X (Account_PK ownerAcc),
                   Order_SellSide = POT_SellSide txn,
                   Order_Quant = POT_Quant txn,
                   Order_Price = POT_Price txn,
                   Order_ExpireRound = POT_ExpireRound txn\<rparr>;
          (book, t) = getOrderBook t (POT_Market txn);
          (book, orderID, executions) = Limit X book order;
          t = t\<lparr>orderBooks := (orderBooks t)(POT_Market txn \<mapsto> book)\<rparr>;
          t = t\<lparr>dirtyOrderBooks := (dirtyOrderBooks t)(POT_Market txn := True)\<rparr>;
          oid = \<lparr>OrderID_ID = orderID, OrderID_Market = POT_Market txn\<rparr>;
          pendingOrder = \<lparr>PO_ID = oid, PO_Order = order, PO_Executed = 0\<rparr>;
          t = t\<lparr>state := updateAccount (state t) owner (UpdatePendingOrder ownerAcc pendingOrder)\<rparr>;
          t = (if Order_ExpireRound order > 0
               then t\<lparr>expirations := (expirations t)(Order_ExpireRound order \<mapsto>
                         (case expirations t (Order_ExpireRound order) of None \<Rightarrow> [] | Some l \<Rightarrow> l)
                           @ [\<lparr>OE_ID = oid, OE_Owner = PK_Addr X (Account_PK ownerAcc)\<rparr>])\<rparr>
               else t)
      in case applyExecutions t (POT_Market txn) round baseInfo quoteInfo executions of
           Inl e \<Rightarrow> Inl e
         | Inr t \<Rightarrow> Inr (True, t))"

definition placeOrder ::
    "externals \<Rightarrow> Transition \<Rightarrow> Addr \<Rightarrow> PlaceOrderTxn \<Rightarrow> u64 \<Rightarrow> error + (bool \<times> Transition)" where
  "placeOrder X t owner txn round =
     (if \<not> Valid (POT_Market txn) then Inr (False, t)
      else if POT_ExpireRound txn > 0 \<and> round \<ge> POT_ExpireRound txn then Inr (False, t)
      else
        case Info (tokenCache t) (Base (POT_Market txn)) of None \<Rightarrow> Inr (False, t) | Some baseInfo \<Rightarrow>
        case Info (tokenCache t) (Quote (POT_Market txn)) of None \<Rightarrow> Inr (False, t) | Some quoteInfo \<Rightarrow>
        if POT_SellSide txn then
          if POT_Quant txn = 0 then Inr (False, t)
          else
            case Account (state t) owner of None \<Rightarrow> Inl NilPointer | Some ownerAcc \<Rightarrow>
            let baseBalance = Balance ownerAcc (Base (POT_Market txn)) in
            if Available baseBalance < POT_Quant txn then Inr (False, t)
            else
              let baseBalance = baseBalance\<lparr>Available := Available baseBalance - POT_Quant txn\<rparr>;
                  baseBalance = baseBalance\<lparr>Pending := Pending baseBalance + POT_Quant txn\<rparr>;
                  t = t\<lparr>state := updateAccount (state t) owner
                                     (UpdateBalance ownerAcc (Base (POT_Market txn)) baseBalance)\<rparr>
              in placeOrderBook X t owner txn round baseInfo quoteInfo
        else
          if POT_Quant txn = 0 then Inr (False, t)
          else
            case calcQuoteQuant (POT_Quant txn) (Decimals quoteInfo) (POT_Price txn)
                   OrderPriceDecimals_u8 (Decimals baseInfo) of
              Inl e \<Rightarrow> Inl e
            | Inr pendingQuant \<Rightarrow>
                if pendingQuant = 0 then Inr (False, t)
                else
                  case Account (state t) owner of None \<Rightarrow> Inl NilPointer | Some ownerAcc \<Rightarrow>
                  let quoteBalance = Balance ownerAcc (Quote (POT_Market txn)) in
                  if Available quoteBalance < pendingQuant then Inr (False, t)
                  else
                    let quoteBalance = quoteBalance\<lparr>Available := Available quoteBalance - pendingQuant\<rparr>;
                        quoteBalance = quoteBalance\<lparr>Pending := Pending quoteBalance + pendingQuant\<rparr>;
                        t = t\<lparr>state := updateAccount (state t) owner
                                           (UpdateBalance ownerAcc (Quote (POT_Market txn)) quoteBalance)\<rparr>
                    in placeOrderBook X t owner txn round baseInfo quoteInfo)"

definition issueToken :: "Transition \<Rightarrow> Addr \<Rightarrow> IssueTokenTxn \<Rightarrow> error + (bool \<times> Transition)" where
  "issueToken t owner txn =
     (if Exists (tokenCache t) (Symbol (ITT_Info txn)) then Inr (False, t)
      else if list_ex (\<lambda>v. ToUpper (Symbol (ITT_Info txn)) = ToUpper (Symbol (Token_Info v)))
                (tokenCreations t)
      then Inr (False, t)
      else
        let tid = (word_of_nat (Size (tokenCache t) + length (tokenCreations t)) :: TokenID);
            token = \<lparr>Token_ID = tid, Token_Info = ITT_Info txn\<rparr>;
            t = t\<lparr>tokenCreations := tokenCreations t @ [token]\<rparr>;
            t = t\<lparr>state := UpdateToken (state t) token\<rparr>
        in case Account (state t) owner of None \<Rightarrow> Inl NilPointer | Some acc \<Rightarrow>
           Inr (True, t\<lparr>state := updateAccount (state t) owner
                  (UpdateBalance acc tid
                     \<lparr>Available = TotalUnits (ITT_Info txn), Pending = 0, Frozen = []\<rparr>)\<rparr>))"

definition sendToken ::
    "externals \<Rightarrow> Transition \<Rightarrow> Addr \<Rightarrow> SendTokenTxn \<Rightarrow> error + (bool \<times> Transition)" where
  "sendToken X t owner txn =
     (if STT_Quant txn = 0 then Inr (False, t)
      else
        case Account (state t) owner of None \<Rightarrow> Inl NilPointer | Some ownerAcc \<Rightarrow>
        let b = Balance ownerAcc (STT_TokenID txn) in
        if Available b < STT_Quant txn then Inr (False, t)
        else
          let toAddr = PK_Addr X (STT_To txn);
              t = (case Account (state t) toAddr of
                     None \<Rightarrow> t\<lparr>state := NewAccount X (state t) (STT_To txn)\<rparr>
                   | Some _ \<Rightarrow> t);
              b = b\<lparr>Available := Available b - STT_Quant txn\<rparr>
          in
          case Account (state t) owner of None \<Rightarrow> Inl NilPointer | Some ownerAcc \<Rightarrow>
          let t = t\<lparr>state := updateAccount (state t) owner
                               (UpdateBalance ownerAcc (STT_TokenID txn) b)\<rparr>
          in
          case Account (state t) toAddr of None \<Rightarrow> Inl NilPointer | Some toAcc \<Rightarrow>
          let toAccBalance = Balance toAcc (STT_TokenID txn);
              toAccBalance = toAccBalance\<lparr>Available := Available toAccBalance + STT_Quant txn\<rparr>
          in Inr (True, t\<lparr>state := updateAccount (state t) toAddr
                                      (UpdateBalance toAcc (STT_TokenID txn) toAccBalance)\<rparr>))"

definition freezeToken ::
    "externals \<Rightarrow> Transition \<Rightarrow> Addr \<Rightarrow> FreezeTokenTxn \<Rightarrow> error + (bool \<times> Transition)" where
  "freezeToken X t acc txn =
     (if FTT_Quant txn = 0 then Inr (False, t)
      else if FTT_AvailableRound txn \<le> roundT t then Inr (False, t)
      else
        case Account (state t) acc of None \<Rightarrow> Inl NilPointer | Some a \<Rightarrow>
        let b = Balance a (FTT_TokenID txn) in
        if Available b < FTT_Quant txn then Inr (False, t)
        else
          let frozen = \<lparr>Frozen_AvailableRound = FTT_AvailableRound txn, Frozen_Quant = FTT_Quant txn\<rparr>;
              b = b\<lparr>Available := Available b - FTT_Quant txn\<rparr>;
              b = b\<lparr>Frozen := Frozen b @ [frozen]\<rparr>;
              t = t\<lparr>state := updateAccount (state t) acc (UpdateBalance a (FTT_TokenID txn) b)\<rparr>;
              t = t\<lparr>state := FreezeToken (state t) (FTT_AvailableRound txn)
                              \<lparr>FT_Addr = PK_Addr X (Account_PK a), FT_TokenID = FTT_TokenID txn,
                               FT_Quant = FTT_Quant txn\<rparr>\<rparr>
          in Inr (True, t))"

text \<open>
  \<open>Record\<close> returns the named results \<open>(valid, success)\<close>, which a bare \<open>return\<close> leaves at
  \<open>(false, false)\<close>, and the transition.
\<close>

definition recorded :: "Txn \<Rightarrow> error + (bool \<times> Transition) \<Rightarrow> error + ((bool \<times> bool) \<times> Transition)" where
  "recorded txn r =
     (case r of
        Inl e \<Rightarrow> Inl e
      | Inr (ok, t) \<Rightarrow>
          if \<not> ok then Inr ((False, False), t)
          else Inr ((True, True), t\<lparr>txns := txns t @ [txn]\<rparr>))"

definition Record :: "externals \<Rightarrow> Transition \<Rightarrow> Txn \<Rightarrow> error + ((bool \<times> bool) \<times> Transition)" where
  "Record X t txn =
     (if finalized t then Inl RecordAfterFinalized
      else
        let (acc, ready, nonceValid) = validateNonce X (state t) txn in
        if \<not> nonceValid then Inr ((False, False), t)
        else if \<not> ready then Inr ((True, False), t)
        else
          case Txn_Decoded txn of
            PlaceOrder tx \<Rightarrow> recorded txn (placeOrder X t acc tx (roundT t))
          | CancelOrder tx \<Rightarrow> recorded txn (cancelOrder t acc tx)
          | IssueToken tx \<Rightarrow> recorded txn (issueToken t acc tx)
          | SendToken tx \<Rightarrow> recorded txn (sendToken X t acc tx)
          | FreezeTokenT tx \<Rightarrow> recorded txn (freezeToken X t acc tx)
          | OtherTxn \<Rightarrow> Inr ((False, False), t))"

subsection \<open>transition.go: finalization\<close>

text \<open>
  Go visits the keys of a map in an order it does not specify. Each loop over a map takes
  the order of the visit as a list of keys; \<open>rangeOf m ks\<close> says that \<open>ks\<close> is such an
  order for a map with the key set \<open>m\<close>: every key once.
\<close>

definition rangeOf :: "'k set \<Rightarrow> 'k list \<Rightarrow> bool" where
  "rangeOf keys ks = (distinct ks \<and> set ks = keys)"

text \<open>
  The first loop of \<open>removeFilledOrderFromExpiration\<close> builds two maps from the filled
  orders with a non-zero expire round: \<open>filled\<close>, the set of their ids, here the list of
  its keys, and \<open>rounds\<close>, the number of them per expire round.
\<close>

definition filledIDs :: "PendingOrder list \<Rightarrow> OrderID list" where
  "filledIDs os = map PO_ID (filter (\<lambda>po. Order_ExpireRound (PO_Order po) \<noteq> 0) os)"

definition roundsCount :: "PendingOrder list \<Rightarrow> u64 \<Rightarrow> int" where
  "roundsCount os r =
     int (length (filter (\<lambda>po. Order_ExpireRound (PO_Order po) \<noteq> 0 \<and>
                               Order_ExpireRound (PO_Order po) = r) os))"

definition roundsKeys :: "PendingOrder list \<Rightarrow> u64 set" where
  "roundsKeys os = {r. r \<noteq> 0 \<and> r \<in> set (map (\<lambda>po. Order_ExpireRound (PO_Order po)) os)}"

text \<open>The test \<open>removed == toRemove\<close> of the second loop, with \<open>removed\<close> as the code computes it.\<close>

definition removedEqualsToRemove :: "orderExpiration list \<Rightarrow> orderExpiration list \<Rightarrow> int \<Rightarrow> bool" where
  "removedEqualsToRemove expirations' newExpirations toRemove =
     (let removed = int (length newExpirations) - int (length expirations')
      in removed = toRemove)"

text \<open>The body of the second loop, for one key \<open>round\<close> of \<open>rounds\<close> and its count \<open>toRemove\<close>.\<close>

definition removeFilledRound :: "OrderID list \<Rightarrow> (u64 \<Rightarrow> int) \<Rightarrow> u64 \<Rightarrow> Transition \<Rightarrow> Transition" where
  "removeFilledRound filled rounds round t =
     (let toRemove = rounds round;
          expirations' = (case expirations t round of None \<Rightarrow> [] | Some l \<Rightarrow> l);
          newExpirations = filter (\<lambda>exp. OE_ID exp \<notin> set filled) expirations';
          t = t\<lparr>expirations := (expirations t)(round \<mapsto> newExpirations)\<rparr>
      in if removedEqualsToRemove expirations' newExpirations toRemove then t
         else t\<lparr>state := RemoveOrderExpirations (state t) round filled\<rparr>)"

definition removeFilledOrderFromExpiration :: "u64 list \<Rightarrow> Transition \<Rightarrow> Transition" where
  "removeFilledOrderFromExpiration ks t =
     fold (removeFilledRound (filledIDs (filledOrders t)) (roundsCount (filledOrders t))) ks t"

text \<open>The bodies of the loops of \<open>recordOrderExpirations\<close> and \<open>saveDirtyOrderBooks\<close>, and the loops.\<close>

definition recordStep :: "u64 \<Rightarrow> Transition \<Rightarrow> Transition" where
  "recordStep expireRound t =
     (case expirations t expireRound of
        None \<Rightarrow> t
      | Some ids \<Rightarrow> t\<lparr>state := AddOrderExpirations (state t) expireRound ids\<rparr>)"

definition recordOrderExpirations :: "u64 list \<Rightarrow> Transition \<Rightarrow> Transition" where
  "recordOrderExpirations ks t = fold recordStep ks t"

definition saveStep :: "MarketSymbol \<Rightarrow> Transition \<Rightarrow> Transition" where
  "saveStep m t =
     (case orderBooks t m of
        None \<Rightarrow> t
      | Some b \<Rightarrow> if dirtyOrderBooks t m then t\<lparr>state := saveOrderBook (state t) m b\<rparr> else t)"

definition saveDirtyOrderBooks :: "MarketSymbol list \<Rightarrow> Transition \<Rightarrow> Transition" where
  "saveDirtyOrderBooks ks t = fold saveStep ks t"

text \<open>
  The bodies of the loops of \<open>expireOrders\<close> and \<open>releaseTokens\<close>. Their local map
  \<open>addrToAcc\<close> caches pointers the State returned; since a pointer is the account's address
  in the store, the cache has no counterpart here.
\<close>

definition expireOrder :: "Transition \<Rightarrow> orderExpiration \<Rightarrow> error + Transition" where
  "expireOrder t oe =
     (let market = OrderID_Market (OE_ID oe);
          (book, t) = getOrderBook t market;
          book = Cancel book (OrderID_ID (OE_ID oe));
          t = t\<lparr>orderBooks := (orderBooks t)(market \<mapsto> book)\<rparr>;
          t = t\<lparr>dirtyOrderBooks := (dirtyOrderBooks t)(market := True)\<rparr>
      in
      case Account (state t) (OE_Owner oe) of None \<Rightarrow> Inl NilPointer | Some acc \<Rightarrow>
      case PendingOrder acc (OE_ID oe) of None \<Rightarrow> Inl ExpiringOrderNotFound | Some order \<Rightarrow>
      let t = t\<lparr>state := updateAccount (state t) (OE_Owner oe) (RemovePendingOrder acc (OE_ID oe))\<rparr>
      in refundAfterCancel t (OE_Owner oe) order market)"

fun expireOrdersLoop :: "Transition \<Rightarrow> orderExpiration list \<Rightarrow> error + Transition" where
  "expireOrdersLoop t [] = Inr t"
| "expireOrdersLoop t (oe # orders) =
     (case expireOrder t oe of Inl e \<Rightarrow> Inl e | Inr t' \<Rightarrow> expireOrdersLoop t' orders)"

definition expireOrders :: "Transition \<Rightarrow> error + Transition" where
  "expireOrders t = expireOrdersLoop t (GetOrderExpirations (state t) (roundT t + 1))"

text \<open>The search of \<open>releaseTokens\<close> for \<open>removeIdx\<close>: the first index whose quant matches, or -1.\<close>

fun findRemoveIdx :: "Frozen list \<Rightarrow> u64 \<Rightarrow> int \<Rightarrow> int" where
  "findRemoveIdx [] q i = -1"
| "findRemoveIdx (f # fs) q i = (if Frozen_Quant f = q then i else findRemoveIdx fs q (i + 1))"

definition releaseToken :: "Transition \<Rightarrow> freezeToken \<Rightarrow> error + Transition" where
  "releaseToken t token =
     (case Account (state t) (FT_Addr token) of None \<Rightarrow> Inl NilPointer | Some acc \<Rightarrow>
      let b = Balance acc (FT_TokenID token);
          removeIdx = findRemoveIdx (Frozen b) (FT_Quant token) 0
      in
      if removeIdx < 0 \<or> int (length (Frozen b)) \<le> removeIdx then Inl IndexOutOfRange
      else
        let f = Frozen b ! nat removeIdx;
            b = b\<lparr>Frozen := take (nat removeIdx) (Frozen b) @ drop (nat removeIdx + 1) (Frozen b)\<rparr>;
            b = b\<lparr>Available := Available b + Frozen_Quant f\<rparr>
        in Inr (t\<lparr>state := updateAccount (state t) (FT_Addr token)
                              (UpdateBalance acc (FT_TokenID token) b)\<rparr>))"

fun releaseTokensLoop :: "Transition \<Rightarrow> freezeToken list \<Rightarrow> error + Transition" where
  "releaseTokensLoop t [] = Inr t"
| "releaseTokensLoop t (token # rest) =
     (case releaseToken t token of Inl e \<Rightarrow> Inl e | Inr t' \<Rightarrow> releaseTokensLoop t' rest)"

definition releaseTokens :: "Transition \<Rightarrow> error + Transition" where
  "releaseTokens t = releaseTokensLoop t (GetFreezeTokens (state t) (roundT t + 1))"

text \<open>The orders in which the three loops over maps of \<open>finalizeState\<close> visit their keys.\<close>

record rangeOrders =
  roundsOrder :: "u64 list"
  expirationsOrder :: "u64 list"
  orderBooksOrder :: "MarketSymbol list"

text \<open>\<open>finalizeState\<close> does not read its parameter \<open>round\<close>; the steps use \<open>t.round\<close>.\<close>

definition finalizeState :: "externals \<Rightarrow> rangeOrders \<Rightarrow> Transition \<Rightarrow> error + Transition" where
  "finalizeState X ro t =
     (if finalized t then Inr t
      else
        let t = removeFilledOrderFromExpiration (roundsOrder ro) t;
            t = recordOrderExpirations (expirationsOrder ro) t
        in
        case expireOrders t of Inl e \<Rightarrow> Inl e | Inr t \<Rightarrow>
        let t = saveDirtyOrderBooks (orderBooksOrder ro) t in
        case releaseTokens t of Inl e \<Rightarrow> Inl e | Inr t \<Rightarrow>
        Inr (t\<lparr>state := CommitCache X (state t), finalized := True\<rparr>))"

definition StateHash :: "externals \<Rightarrow> rangeOrders \<Rightarrow> Transition \<Rightarrow> error + (Hash \<times> Transition)" where
  "StateHash X ro t =
     (case finalizeState X ro t of
        Inl e \<Rightarrow> Inl e
      | Inr t \<Rightarrow> Inr (StateHashOf X (state t), t))"

text \<open>
  \<open>visitsEachKeyOnce t ro\<close>: the orders \<open>ro\<close> are orders in which \<open>finalizeState\<close> on \<open>t\<close> can
  visit its maps: each lists, once each, the keys the map has when its loop starts (the
  keys of \<open>rounds\<close>; the keys of \<open>t.expirations\<close> after the first step; the keys of
  \<open>t.orderBooks\<close> after \<open>expireOrders\<close>, if that returns).
\<close>

definition visitsEachKeyOnce :: "Transition \<Rightarrow> rangeOrders \<Rightarrow> bool" where
  "visitsEachKeyOnce t ro =
     (let t1 = removeFilledOrderFromExpiration (roundsOrder ro) t;
          t2 = recordOrderExpirations (expirationsOrder ro) t1
      in rangeOf (roundsKeys (filledOrders t)) (roundsOrder ro) \<and>
         rangeOf (dom (expirations t1)) (expirationsOrder ro) \<and>
         (case expireOrders t2 of
            Inl e \<Rightarrow> True
          | Inr t3 \<Rightarrow> rangeOf (dom (orderBooks t3)) (orderBooksOrder ro)))"

subsection \<open>The consensus validator\<close>

text \<open>
  Modelled from the spec: the validator consults the chain and its random beacon through
  \<open>Chain.Round()\<close>, \<open>RandomBeacon.Depth()\<close>, \<open>RandomBeacon.Committees(round)\<close>,
  \<open>RandomBeacon.Rank(owner, round)\<close> and \<open>RandomBeacon.groups[i].PK\<close>, and the BLS library
  through \<open>Deserialize\<close> and \<open>Verify\<close>; all of them live in other files. They are
  fields of the records below: what a call returns in the state the validator runs in.
  The artifacts carry the fields the validator reads.
\<close>

record RandomBeacon =
  Depth :: u64
  Committees :: "u64 \<Rightarrow> int \<times> int \<times> int"
  groups :: "PK list"
  Rank :: "Addr \<Rightarrow> u64 \<Rightarrow> string + int"

record Chain =
  RandomBeacon :: RandomBeacon
  Round :: u64

record bls =
  Deserialize :: "8 word list \<Rightarrow> string + nat"
  Verify :: "nat \<Rightarrow> PK \<Rightarrow> 8 word list \<Rightarrow> bool"

record validator =
  chain :: Chain
  sig_lib :: bls

record Block =
  Block_Round :: u64
  Block_Owner :: Addr
  Block_NotarizationSig :: "8 word list"
  Block_Encode :: "bool \<Rightarrow> 8 word list"

record BlockProposal =
  BP_Round :: u64

record NtShare =
  NtShare_Round :: u64

record RandBeaconSig =
  RBS_Round :: u64

record RandBeaconSigShare =
  RBSS_Round :: u64

text \<open>
  The \<open>float64\<close> weights the validator returns are \<open>0\<close> and \<open>math.Pow(0.5, float64(rank))\<close>
  for a rank that is not negative: \<open>HalfPow n\<close> is \<open>0.5^n\<close>, which float64 holds exactly
  up to \<open>n = 1074\<close>; beyond it the power underflows to \<open>0\<close>.
\<close>

datatype float64 = FZero | HalfPow nat

definition rankToWeight :: "int \<Rightarrow> error + float64" where
  "rankToWeight rank =
     (if rank < 0 then Inl NegativeRank
      else Inr (if rank \<le> 1074 then HalfPow (nat rank) else FZero))"

definition ValidateBlock :: "validator \<Rightarrow> Block \<Rightarrow> error + (float64 \<times> bool)" where
  "ValidateBlock v b =
     (let depth = Depth (RandomBeacon (chain v)) in
      if Block_Round b > depth then Inr (FZero, False)
      else
        case Deserialize (sig_lib v) (Block_NotarizationSig b) of
          Inl err \<Rightarrow> Inr (FZero, False)
        | Inr sign \<Rightarrow>
            let msg = Block_Encode b False;
                (_, _, nt) = Committees (RandomBeacon (chain v)) (Block_Round b)
            in
            if nt < 0 \<or> int (length (groups (RandomBeacon (chain v)))) \<le> nt then Inl IndexOutOfRange
            else
              let success = Verify (sig_lib v) sign (groups (RandomBeacon (chain v)) ! nat nt) msg in
              if \<not> success then Inr (FZero, False)
              else
                case Rank (RandomBeacon (chain v)) (Block_Owner b) (Block_Round b) of
                  Inl err \<Rightarrow> Inr (FZero, False)
                | Inr rank \<Rightarrow>
                    (case rankToWeight rank of
                       Inl e \<Rightarrow> Inl e
                     | Inr w \<Rightarrow> Inr (w, True)))"

definition ValidateBlockProposal :: "validator \<Rightarrow> BlockProposal \<Rightarrow> float64 \<times> bool" where
  "ValidateBlockProposal v bp =
     (let round = Round (chain v) in
      if BP_Round bp \<noteq> round then (FZero, False) else (FZero, True))"

definition ValidateNtShare :: "validator \<Rightarrow> NtShare \<Rightarrow> int \<times> bool" where
  "ValidateNtShare v n =
     (let round = Round (chain v) in
      if NtShare_Round n \<noteq> round then (0, False)
      else
        let (_, _, nt) = Committees (RandomBeacon (chain v)) round
        in (nt, True))"

definition ValidateRandBeaconSig :: "validator \<Rightarrow> RandBeaconSig \<Rightarrow> bool" where
  "ValidateRandBeaconSig v r =
     (let targetDepth = Depth (RandomBeacon (chain v)) in
      if RBS_Round r \<noteq> targetDepth then False else True)"

definition ValidateRandBeaconSigShare :: "validator \<Rightarrow> RandBeaconSigShare \<Rightarrow> int \<times> bool" where
  "ValidateRandBeaconSigShare v r =
     (let targetDepth = Depth (RandomBeacon (chain v)) in
      if RBSS_Round r \<noteq> targetDepth then (0, False)
      else
        let (rb, _, _) = Committees (RandomBeacon (chain v)) targetDepth
        in (rb, True))"

subsection \<open>Example states\<close>

text \<open>
  Concrete values on which the theorems below are instantiated: two tokens with no
  decimals, the account of address 10 holding 1000 units of token 0 (150 of them frozen in
  three entries), and the account of address 20 with a resting buy order of 5 units at the
  price \<open>2 * 10^8\<close> in the market of token 0 against token 1, for which 10 units of
  token 1 are reserved.
\<close>

definition X0 :: externals where
  "X0 = \<lparr>PK_Addr = (\<lambda>pk. pk),
          validateNonce = (\<lambda>s txn. (10, True, True)),
          Limit = (\<lambda>book order. (book\<lparr>nextID := nextID book + 1\<rparr>, nextID book, [])),
          CommitCache = (\<lambda>s. s),
          StateHashOf = (\<lambda>s. length (tokens s))\<rparr>"

definition cache0 :: TokenCache where
  "cache0 = \<lparr>cached =
     [\<lparr>Token_ID = 0, Token_Info = \<lparr>Symbol = ''ABC'', Decimals = 0, TotalUnits = 1000\<rparr>\<rparr>,
      \<lparr>Token_ID = 1, Token_Info = \<lparr>Symbol = ''XYZ'', Decimals = 0, TotalUnits = 1000\<rparr>\<rparr>]\<rparr>"

definition market0 :: MarketSymbol where
  "market0 = \<lparr>Base = 0, Quote = 1\<rparr>"

definition oid0 :: OrderID where
  "oid0 = \<lparr>OrderID_ID = 1, OrderID_Market = market0\<rparr>"

definition buy0 :: PendingOrder where
  "buy0 = \<lparr>PO_ID = oid0,
            PO_Order = \<lparr>Order_Owner = 20, Order_SellSide = False, Order_Quant = 5,
                        Order_Price = 200000000, Order_ExpireRound = 9\<rparr>,
            PO_Executed = 0\<rparr>"

definition accA :: Account where
  "accA = \<lparr>Account_PK = 10,
            balances = (\<lambda>_. zeroBalance)
              (0 := \<lparr>Available = 850, Pending = 0,
                     Frozen = [\<lparr>Frozen_AvailableRound = 8, Frozen_Quant = 30\<rparr>,
                               \<lparr>Frozen_AvailableRound = 8, Frozen_Quant = 100\<rparr>,
                               \<lparr>Frozen_AvailableRound = 12, Frozen_Quant = 20\<rparr>]\<rparr>),
            pendingOrders = Map.empty,
            executionReports = []\<rparr>"

definition accB :: Account where
  "accB = \<lparr>Account_PK = 20,
            balances = (\<lambda>_. zeroBalance)(1 := \<lparr>Available = 90, Pending = 10, Frozen = []\<rparr>),
            pendingOrders = [oid0 \<mapsto> buy0],
            executionReports = []\<rparr>"

definition book0 :: orderBook where
  "book0 = \<lparr>bids = [(1, PO_Order buy0)], asks = [], nextID = 2\<rparr>"

definition state0 :: State where
  "state0 = \<lparr>accounts = [10 \<mapsto> accA, 20 \<mapsto> accB],
              tokens = [],
              savedOrderBooks = [market0 \<mapsto> book0],
              orderExpirations = (\<lambda>_. []),
              freezeTokens = (\<lambda>_. [])(8 := [\<lparr>FT_Addr = 10, FT_TokenID = 0, FT_Quant = 100\<rparr>])\<rparr>"

definition t0 :: Transition where
  "t0 = \<lparr>roundT = 7, finalized = False, tokenCreations = [], txns = [],
          expirations = Map.empty, filledOrders = [], state = state0,
          orderBooks = Map.empty, dirtyOrderBooks = (\<lambda>_. False), tokenCache = cache0\<rparr>"

definition selfSend :: SendTokenTxn where
  "selfSend = \<lparr>STT_TokenID = 0, STT_To = 10, STT_Quant = 300\<rparr>"

definition selfSendTxn :: Txn where
  "selfSendTxn = \<lparr>Txn_Raw = [1, 2, 3], Txn_Decoded = SendToken selfSend\<rparr>"





definition cancel0 :: CancelOrderTxn where
  "cancel0 = \<lparr>COT_ID = oid0\<rparr>"




text \<open>
  Two validators for a block of round 3 signed by the owner 10: one whose beacon holds two
  groups and names the second as the notarization committee, one whose beacon holds no
  group at all.
\<close>

definition bls0 :: bls where
  "bls0 = \<lparr>Deserialize = (\<lambda>bs. if bs = [] then Inl ''empty'' else Inr (length bs)),
            Verify = (\<lambda>sign pk msg. sign = 2 \<and> pk = 77)\<rparr>"

definition beaconNoGroups :: RandomBeacon where
  "beaconNoGroups = \<lparr>Depth = 5, Committees = (\<lambda>round. (0, 0, 0)), groups = [],
                      Rank = (\<lambda>owner round. Inr 0)\<rparr>"

definition beacon0 :: RandomBeacon where
  "beacon0 = \<lparr>Depth = 5, Committees = (\<lambda>round. (0, 0, 1)), groups = [66, 77],
               Rank = (\<lambda>owner round. if owner = 10 then Inr 2 else Inl ''no rank'')\<rparr>"

definition validatorNoGroups :: validator where
  "validatorNoGroups = \<lparr>chain = \<lparr>RandomBeacon = beaconNoGroups, Round = 6\<rparr>, sig_lib = bls0\<rparr>"

definition validator0 :: validator where
  "validator0 = \<lparr>chain = \<lparr>RandomBeacon = beacon0, Round = 6\<rparr>, sig_lib = bls0\<rparr>"

definition block0 :: Block where
  "block0 = \<lparr>Block_Round = 3, Block_Owner = 10, Block_NotarizationSig = [1, 2],
             Block_Encode = (\<lambda>withSig. [3, 4])\<rparr>"

text \<open>
  A transition in which the buy order above was placed, with its expiration at round 9
  staged, and then filled at its own price, and a transition with two staged expiration
  rounds and two dirty books, with two orders of visiting its maps.
\<close>

definition filled0 :: PendingOrder where
  "filled0 = buy0\<lparr>PO_Executed := 5\<rparr>"

definition expiration0 :: orderExpiration where
  "expiration0 = \<lparr>OE_ID = oid0, OE_Owner = 20\<rparr>"

definition expiration1 :: orderExpiration where
  "expiration1 = \<lparr>OE_ID = \<lparr>OrderID_ID = 2, OrderID_Market = market0\<rparr>, OE_Owner = 10\<rparr>"

definition market1 :: MarketSymbol where
  "market1 = \<lparr>Base = 1, Quote = 0\<rparr>"

definition accB_filled :: Account where
  "accB_filled = \<lparr>Account_PK = 20,
            balances = (\<lambda>_. zeroBalance)
              (0 := \<lparr>Available = 5, Pending = 0, Frozen = []\<rparr>,
               1 := \<lparr>Available = 90, Pending = 0, Frozen = []\<rparr>),
            pendingOrders = Map.empty,
            executionReports =
              [\<lparr>ER_Round = 7, ER_ID = oid0, ER_SellSide = False, ER_TradePrice = 200000000,
                ER_Quant = 5, ER_Fee = 0\<rparr>]\<rparr>"

definition tFilled :: Transition where
  "tFilled = t0\<lparr>expirations := [9 \<mapsto> [expiration0]],
               filledOrders := [filled0],
               state := state0\<lparr>accounts := [10 \<mapsto> accA, 20 \<mapsto> accB_filled],
                               savedOrderBooks := Map.empty\<rparr>,
               orderBooks := [market0 \<mapsto> book0\<lparr>bids := []\<rparr>],
               dirtyOrderBooks := (\<lambda>_. False)(market0 := True)\<rparr>"

definition tTwo :: Transition where
  "tTwo = t0\<lparr>expirations := [9 \<mapsto> [expiration0], 12 \<mapsto> [expiration1]],
            filledOrders := [filled0],
            orderBooks := [market0 \<mapsto> book0, market1 \<mapsto> newOrderBook],
            dirtyOrderBooks := (\<lambda>_. False)(market0 := True, market1 := True)\<rparr>"

definition orderA :: rangeOrders where
  "orderA = \<lparr>roundsOrder = [9], expirationsOrder = [9, 12], orderBooksOrder = [market0, market1]\<rparr>"

definition orderB :: rangeOrders where
  "orderB = \<lparr>roundsOrder = [9], expirationsOrder = [12, 9], orderBooksOrder = [market1, market0]\<rparr>"

section \<open>Properties\<close>

subsection \<open>calcQuoteQuant computes the truncated quotient\<close>

lemma calcQuoteQuant_decimals_ok:
  assumes "unat quoteDecimals \<le> 19" and "unat baseDecimals \<le> 19"
  shows "calcQuoteQuant b quoteDecimals p pd baseDecimals =
           Inr (word_of_nat
                  ((unat b * 10 ^ unat quoteDecimals * unat p)
                     div (10 ^ unat baseDecimals * 10 ^ OrderPriceDecimals)))"
  using assms
  by (simp add: calcQuoteQuant_def Pow10_uint64_def OrderPriceDecimals_def Let_def div_mult2_eq)

text \<open>
  Claim C2. With \<open>quoteDecimals\<close> and \<open>baseDecimals\<close> at most 18 and the mathematical
  quotient \<open>(base * 10^quoteDecimals * price) div (10^baseDecimals * 10^OrderPriceDecimals)\<close>
  below \<open>2^64\<close>, \<open>calcQuoteQuant\<close> returns exactly that quotient (the floor, which on
  non-negative operands is the truncation toward zero). The products are formed on
  unbounded naturals, so no intermediate value wraps.
\<close>

theorem calcQuoteQuant_exact:
  assumes "unat quoteDecimals \<le> 18" and "unat baseDecimals \<le> 18"
    and "(unat base * 10 ^ unat quoteDecimals * unat price)
           div (10 ^ unat baseDecimals * 10 ^ OrderPriceDecimals) < 2 ^ 64"
  shows "\<exists>r. calcQuoteQuant base quoteDecimals price OrderPriceDecimals_u8 baseDecimals = Inr r \<and>
             unat r = (unat base * 10 ^ unat quoteDecimals * unat price)
                        div (10 ^ unat baseDecimals * 10 ^ OrderPriceDecimals)"
proof -
  let ?q = "(unat base * 10 ^ unat quoteDecimals * unat price)
              div (10 ^ unat baseDecimals * 10 ^ OrderPriceDecimals)"
  have "calcQuoteQuant base quoteDecimals price OrderPriceDecimals_u8 baseDecimals
          = Inr (word_of_nat ?q)"
    using assms(1,2) by (intro calcQuoteQuant_decimals_ok) simp_all
  moreover have "unat (word_of_nat ?q :: u64) = ?q"
    using assms(3) by (simp add: unat_of_nat)
  ultimately show ?thesis by blast
qed

theorem calcQuoteQuant_exact_witness:
  "\<exists>r. calcQuoteQuant 5 0 200000000 OrderPriceDecimals_u8 0 = Inr r \<and> unat r = 10"
  using calcQuoteQuant_exact [where quoteDecimals = 0 and baseDecimals = 0 and base = 5
      and price = 200000000]
  by (simp add: OrderPriceDecimals_def)

subsection \<open>sendToken to the sender's own address\<close>

lemma sendToken_self_unchanged:
  assumes "PK_Addr X (STT_To txn) = owner"
    and "Account (state t) owner = Some acc"
    and "STT_Quant txn \<noteq> 0"
    and "STT_Quant txn \<le> Available (Balance acc (STT_TokenID txn))"
  shows "sendToken X t owner txn = Inr (True, t)"
  using assms
  by (auto simp add: sendToken_def Let_def Account_def updateAccount_def UpdateBalance_def
        Balance_def map_upd_triv)

text \<open>
  Claim C10. When the recipient's public key hashes to the sender's own address, the quant
  is positive and the sender's available balance of the token is at least the quant,
  \<open>sendToken\<close> succeeds and the sender's balance of that token is what it was: the credit
  reads the balance the debit has just written, so the two cancel. Nothing else changes
  either, so the transition after the call is the transition before.
\<close>

theorem sendToken_to_self:
  assumes "PK_Addr X (STT_To txn) = owner"
    and "Account (state t) owner = Some acc"
    and "STT_Quant txn \<noteq> 0"
    and "STT_Quant txn \<le> Available (Balance acc (STT_TokenID txn))"
  shows "\<exists>t' acc'. sendToken X t owner txn = Inr (True, t') \<and>
           Account (state t') owner = Some acc' \<and>
           Balance acc' (STT_TokenID txn) = Balance acc (STT_TokenID txn) \<and>
           t' = t"
  using assms sendToken_self_unchanged [OF assms] by simp

theorem sendToken_to_self_witness:
  "\<exists>t' acc'. sendToken X0 t0 10 selfSend = Inr (True, t') \<and>
     Account (state t') 10 = Some acc' \<and>
     Balance acc' 0 = \<lparr>Available = 850, Pending = 0,
                        Frozen = [\<lparr>Frozen_AvailableRound = 8, Frozen_Quant = 30\<rparr>,
                                  \<lparr>Frozen_AvailableRound = 8, Frozen_Quant = 100\<rparr>,
                                  \<lparr>Frozen_AvailableRound = 12, Frozen_Quant = 20\<rparr>]\<rparr> \<and>
     t' = t0"
  using sendToken_to_self [where X = X0 and t = t0 and owner = 10 and txn = selfSend and acc = accA]
  by (simp add: X0_def t0_def state0_def accA_def selfSend_def Account_def Balance_def)

subsection \<open>Record appends exactly the transactions it applies\<close>

lemma getOrderBook_txns: "getOrderBook t m = (b, t') \<Longrightarrow> txns t' = txns t"
  by (auto simp: getOrderBook_def Let_def split: option.splits)

lemma refundAfterCancel_txns: "refundAfterCancel t owner c m = Inr t' \<Longrightarrow> txns t' = txns t"
  by (auto simp: refundAfterCancel_def Let_def split: option.splits if_splits sum.splits)

lemma applyExecution_txns:
  "applyExecution t m r bi qi ex = Inr t' \<Longrightarrow> txns t' = txns t"
  by (auto simp: applyExecution_def Let_def split: option.splits if_splits sum.splits)

lemma applyExecutions_txns:
  "applyExecutions t m r bi qi exs = Inr t' \<Longrightarrow> txns t' = txns t"
proof (induction exs arbitrary: t)
  case Nil
  then show ?case by simp
next
  case (Cons ex exs)
  then show ?case
    by (auto split: sum.splits dest: applyExecution_txns)
qed

text \<open>Once the order has reached the book, \<open>placeOrder\<close> can only return \<open>true\<close>.\<close>

lemma placeOrderBook_result:
  assumes "placeOrderBook X t owner txn r bi qi = Inr (ok, t')"
  shows "ok \<and> txns t' = txns t"
  using assms
  by (auto simp: placeOrderBook_def Let_def
           split: option.splits sum.splits prod.splits if_splits
           dest!: applyExecutions_txns getOrderBook_txns)

text \<open>Each handler leaves \<open>txns\<close> alone, and returns \<open>false\<close> only before its first write.\<close>

lemma placeOrder_result:
  assumes "placeOrder X t owner txn r = Inr (ok, t')"
  shows "txns t' = txns t \<and> (\<not> ok \<longrightarrow> t' = t)"
  using assms
  by (auto simp: placeOrder_def Let_def
           split: option.splits sum.splits if_splits
           dest!: placeOrderBook_result)

lemma cancelOrder_result:
  assumes "cancelOrder t owner txn = Inr (ok, t')"
  shows "txns t' = txns t \<and> (\<not> ok \<longrightarrow> t' = t)"
  using assms
  by (auto simp: cancelOrder_def Let_def
           split: option.splits sum.splits prod.splits
           dest!: refundAfterCancel_txns getOrderBook_txns)

lemma issueToken_result:
  assumes "issueToken t owner txn = Inr (ok, t')"
  shows "txns t' = txns t \<and> (\<not> ok \<longrightarrow> t' = t)"
  using assms
  by (auto simp: issueToken_def Let_def split: option.splits if_splits)

lemma sendToken_result:
  assumes "sendToken X t owner txn = Inr (ok, t')"
  shows "txns t' = txns t \<and> (\<not> ok \<longrightarrow> t' = t)"
  using assms
  by (auto simp: sendToken_def Let_def split: option.splits if_splits)

lemma freezeToken_result:
  assumes "freezeToken X t owner txn = Inr (ok, t')"
  shows "txns t' = txns t \<and> (\<not> ok \<longrightarrow> t' = t)"
  using assms
  by (auto simp: freezeToken_def Let_def split: option.splits if_splits)

lemma recorded_result:
  assumes "recorded txn r = Inr ((valid, success), t')"
    and "\<And>ok t''. r = Inr (ok, t'') \<Longrightarrow> txns t'' = txns t \<and> (\<not> ok \<longrightarrow> t'' = t)"
  shows "(txns t' = txns t @ [txn] \<longleftrightarrow> valid \<and> success) \<and>
         (\<not> (valid \<and> success) \<longrightarrow> t' = t) \<and> (success \<longrightarrow> valid)"
  using assms
  by (auto simp: recorded_def split: sum.splits prod.splits if_splits)

text \<open>
  Claim C4. Whenever \<open>Record\<close> returns, with the pair \<open>(valid, success)\<close> and the
  transition \<open>t'\<close>: the transaction has been appended to the ordered list \<open>txns\<close> if and
  only if the pair is \<open>(true, true)\<close>; for every other pair, \<open>(false, _)\<close> or
  \<open>(true, false)\<close>, the transition is the one before the call, so neither the list nor
  any account, token, order book, expiration or freeze entry has changed. The pair
  \<open>(false, true)\<close> is never returned.
\<close>

theorem Record_appends_iff:
  assumes "Record X t txn = Inr ((valid, success), t')"
  shows "(txns t' = txns t @ [txn] \<longleftrightarrow> valid \<and> success) \<and>
         (\<not> (valid \<and> success) \<longrightarrow> t' = t) \<and> (success \<longrightarrow> valid)"
proof -
  obtain acc ready nonceValid where vn: "validateNonce X (state t) txn = (acc, ready, nonceValid)"
    by (cases "validateNonce X (state t) txn") auto
  show ?thesis
  proof (cases "nonceValid \<and> ready")
    case False
    with assms vn show ?thesis
      by (auto simp: Record_def split: if_splits)
  next
    case True
    with assms vn have fin: "\<not> finalized t"
      by (auto simp: Record_def split: if_splits)
    show ?thesis
    proof (cases "Txn_Decoded txn")
      case (PlaceOrder tx)
      with assms vn True fin
      have "recorded txn (placeOrder X t acc tx (roundT t)) = Inr ((valid, success), t')"
        by (simp add: Record_def)
      then show ?thesis
        by (rule recorded_result) (auto dest: placeOrder_result)
    next
      case (CancelOrder tx)
      with assms vn True fin
      have "recorded txn (cancelOrder t acc tx) = Inr ((valid, success), t')"
        by (simp add: Record_def)
      then show ?thesis
        by (rule recorded_result) (auto dest: cancelOrder_result)
    next
      case (IssueToken tx)
      with assms vn True fin
      have "recorded txn (issueToken t acc tx) = Inr ((valid, success), t')"
        by (simp add: Record_def)
      then show ?thesis
        by (rule recorded_result) (auto dest: issueToken_result)
    next
      case (SendToken tx)
      with assms vn True fin
      have "recorded txn (sendToken X t acc tx) = Inr ((valid, success), t')"
        by (simp add: Record_def)
      then show ?thesis
        by (rule recorded_result) (auto dest: sendToken_result)
    next
      case (FreezeTokenT tx)
      with assms vn True fin
      have "recorded txn (freezeToken X t acc tx) = Inr ((valid, success), t')"
        by (simp add: Record_def)
      then show ?thesis
        by (rule recorded_result) (auto dest: freezeToken_result)
    next
      case OtherTxn
      with assms vn True fin show ?thesis
        by (auto simp: Record_def)
    qed
  qed
qed

theorem Record_appends_iff_witness:
  "Record X0 t0 selfSendTxn = Inr ((True, True), t0\<lparr>txns := [selfSendTxn]\<rparr>) \<and>
   txns (t0\<lparr>txns := [selfSendTxn]\<rparr>) = txns t0 @ [selfSendTxn]"
proof -
  have s: "sendToken X0 t0 10 selfSend = Inr (True, t0)"
    by (rule sendToken_self_unchanged [where acc = accA])
       (simp_all add: X0_def t0_def state0_def accA_def selfSend_def Account_def Balance_def)
  have "validateNonce X0 (state t0) selfSendTxn = (10, True, True)"
    and "\<not> finalized t0" and "Txn_Decoded selfSendTxn = SendToken selfSend"
    by (simp_all add: X0_def t0_def selfSendTxn_def)
  then have "Record X0 t0 selfSendTxn = Inr ((True, True), t0\<lparr>txns := txns t0 @ [selfSendTxn]\<rparr>)"
    by (simp add: Record_def s recorded_def)
  then have r: "Record X0 t0 selfSendTxn = Inr ((True, True), t0\<lparr>txns := [selfSendTxn]\<rparr>)"
    by (simp add: t0_def)
  from Record_appends_iff [OF r] r show ?thesis by simp
qed

subsection \<open>issueToken: symbols are unique up to case\<close>





subsection \<open>releaseTokens: the first frozen entry of equal quant is thawed\<close>




subsection \<open>cancelOrder refunds the remaining reservation\<close>

lemma Cancel_not_inBook: "\<not> inBook (Cancel book i) i"
  by (auto simp: inBook_def Cancel_def)

lemma refundAfterCancel_sell:
  assumes "Account (state t) owner = Some acc"
    and "Order_SellSide (PO_Order cancel)"
    and "PO_Executed cancel < Order_Quant (PO_Order cancel)"
    and "r = Order_Quant (PO_Order cancel) - PO_Executed cancel"
    and "r \<le> Pending (Balance acc (Base market))"
  shows "refundAfterCancel t owner cancel market =
           Inr (t\<lparr>state := updateAccount (state t) owner
                  (UpdateBalance acc (Base market)
                     ((Balance acc (Base market))
                        \<lparr>Pending := Pending (Balance acc (Base market)) - r,
                         Available := Available (Balance acc (Base market)) + r\<rparr>))\<rparr>)"
proof -
  have "\<not> Order_Quant (PO_Order cancel) \<le> PO_Executed cancel"
    and "\<not> Pending (Balance acc (Base market)) < Order_Quant (PO_Order cancel) - PO_Executed cancel"
    using assms(3,4,5) by simp_all
  with assms(1,2,4) show ?thesis
    by (simp add: refundAfterCancel_def Let_def)
qed

lemma refundAfterCancel_buy:
  assumes "Account (state t) owner = Some acc"
    and "\<not> Order_SellSide (PO_Order cancel)"
    and "PO_Executed cancel < Order_Quant (PO_Order cancel)"
    and "idToInfo (tokenCache t) (Quote market) = Some quoteInfo"
    and "idToInfo (tokenCache t) (Base market) = Some baseInfo"
    and "calcQuoteQuant (Order_Quant (PO_Order cancel) - PO_Executed cancel) (Decimals quoteInfo)
           (Order_Price (PO_Order cancel)) OrderPriceDecimals_u8 (Decimals baseInfo) = Inr q"
    and "q \<le> Pending (Balance acc (Quote market))"
  shows "refundAfterCancel t owner cancel market =
           Inr (t\<lparr>state := updateAccount (state t) owner
                  (UpdateBalance acc (Quote market)
                     ((Balance acc (Quote market))
                        \<lparr>Pending := Pending (Balance acc (Quote market)) - q,
                         Available := Available (Balance acc (Quote market)) + q\<rparr>))\<rparr>)"
proof -
  have "\<not> Order_Quant (PO_Order cancel) \<le> PO_Executed cancel"
    and "\<not> Pending (Balance acc (Quote market)) < q"
    using assms(3,7) by simp_all
  with assms(1,2,4,5,6) show ?thesis
    by (simp add: refundAfterCancel_def Let_def)
qed

lemma cancelOrder_found:
  assumes "Account (state t) owner = Some acc" and "PendingOrder acc (COT_ID txn) = Some cancel"
  shows "cancelOrder t owner txn =
           (case refundAfterCancel (cancelled t owner acc txn) owner cancel (OrderID_Market (COT_ID txn)) of
              Inl e \<Rightarrow> Inl e | Inr t' \<Rightarrow> Inr (True, t'))"
  using assms by (simp add: cancelOrder_def cancelled_def Let_def split: prod.splits)

lemma cancelled_facts:
  assumes "Account (state t) owner = Some acc"
  shows "Account (state (cancelled t owner acc txn)) owner = Some (RemovePendingOrder acc (COT_ID txn))"
    and "tokenCache (cancelled t owner acc txn) = tokenCache t"
    and "\<exists>book. orderBooks (cancelled t owner acc txn) (OrderID_Market (COT_ID txn)) = Some book \<and>
                 \<not> inBook book (OrderID_ID (COT_ID txn))"
  using assms
  by (auto simp: cancelled_def Let_def Account_def updateAccount_def Cancel_not_inBook
           getOrderBook_def split: prod.splits option.splits)

text \<open>
  Claim C6. For an owner whose account exists. If the order of the transaction is not in
  the owner's pending set, \<open>cancelOrder\<close> returns \<open>false\<close> and the transition is unchanged.
  If it is there with a remaining quantity \<open>r = quant - executed > 0\<close>, then, provided the
  pending balance covers the refund (the invariant whose violation the code treats as
  fatal) and, for a buy, the two tokens are in the token cache, \<open>cancelOrder\<close> returns
  \<open>true\<close>, the market's book in the transition no longer holds the order's id, the owner's
  pending set no longer holds the order, and the refund has moved from pending to
  available: \<open>r\<close> units of the base token for a sell;
  \<open>calcQuoteQuant(r, quote.decimals, order.price, OrderPriceDecimals, base.decimals)\<close>
  units of the quote token for a buy, at the order's own limit price.
\<close>

theorem cancelOrder_refund:
  assumes acc: "Account (state t) owner = Some acc"
  shows "(PendingOrder acc (COT_ID txn) = None \<longrightarrow> cancelOrder t owner txn = Inr (False, t)) \<and>
         (\<forall>cancel r. PendingOrder acc (COT_ID txn) = Some cancel \<and>
             PO_Executed cancel < Order_Quant (PO_Order cancel) \<and>
             r = Order_Quant (PO_Order cancel) - PO_Executed cancel \<and>
             Order_SellSide (PO_Order cancel) \<and>
             r \<le> Pending (Balance acc (Base (OrderID_Market (COT_ID txn))))
           \<longrightarrow> (\<exists>t' acc' book.
                  cancelOrder t owner txn = Inr (True, t') \<and>
                  orderBooks t' (OrderID_Market (COT_ID txn)) = Some book \<and>
                  \<not> inBook book (OrderID_ID (COT_ID txn)) \<and>
                  Account (state t') owner = Some acc' \<and>
                  PendingOrder acc' (COT_ID txn) = None \<and>
                  Balance acc' (Base (OrderID_Market (COT_ID txn))) =
                    (Balance acc (Base (OrderID_Market (COT_ID txn))))
                      \<lparr>Pending := Pending (Balance acc (Base (OrderID_Market (COT_ID txn)))) - r,
                       Available := Available (Balance acc (Base (OrderID_Market (COT_ID txn)))) + r\<rparr>)) \<and>
         (\<forall>cancel r quoteInfo baseInfo q. PendingOrder acc (COT_ID txn) = Some cancel \<and>
             PO_Executed cancel < Order_Quant (PO_Order cancel) \<and>
             r = Order_Quant (PO_Order cancel) - PO_Executed cancel \<and>
             \<not> Order_SellSide (PO_Order cancel) \<and>
             idToInfo (tokenCache t) (Quote (OrderID_Market (COT_ID txn))) = Some quoteInfo \<and>
             idToInfo (tokenCache t) (Base (OrderID_Market (COT_ID txn))) = Some baseInfo \<and>
             calcQuoteQuant r (Decimals quoteInfo) (Order_Price (PO_Order cancel))
               OrderPriceDecimals_u8 (Decimals baseInfo) = Inr q \<and>
             q \<le> Pending (Balance acc (Quote (OrderID_Market (COT_ID txn))))
           \<longrightarrow> (\<exists>t' acc' book.
                  cancelOrder t owner txn = Inr (True, t') \<and>
                  orderBooks t' (OrderID_Market (COT_ID txn)) = Some book \<and>
                  \<not> inBook book (OrderID_ID (COT_ID txn)) \<and>
                  Account (state t') owner = Some acc' \<and>
                  PendingOrder acc' (COT_ID txn) = None \<and>
                  Balance acc' (Quote (OrderID_Market (COT_ID txn))) =
                    (Balance acc (Quote (OrderID_Market (COT_ID txn))))
                      \<lparr>Pending := Pending (Balance acc (Quote (OrderID_Market (COT_ID txn)))) - q,
                       Available := Available (Balance acc (Quote (OrderID_Market (COT_ID txn)))) + q\<rparr>))"
proof (intro conjI allI impI)
  assume "PendingOrder acc (COT_ID txn) = None"
  with acc show "cancelOrder t owner txn = Inr (False, t)"
    by (simp add: cancelOrder_def)
next
  fix cancel r
  let ?m = "OrderID_Market (COT_ID txn)"
  let ?c = "cancelled t owner acc txn"
  assume a: "PendingOrder acc (COT_ID txn) = Some cancel \<and>
             PO_Executed cancel < Order_Quant (PO_Order cancel) \<and>
             r = Order_Quant (PO_Order cancel) - PO_Executed cancel \<and>
             Order_SellSide (PO_Order cancel) \<and>
             r \<le> Pending (Balance acc (Base ?m))"
  note c = cancelled_facts [OF acc, of txn]
  have "refundAfterCancel ?c owner cancel ?m = Inr (?c\<lparr>state := updateAccount (state ?c) owner
          (UpdateBalance (RemovePendingOrder acc (COT_ID txn)) (Base ?m)
             ((Balance (RemovePendingOrder acc (COT_ID txn)) (Base ?m))
                \<lparr>Pending := Pending (Balance (RemovePendingOrder acc (COT_ID txn)) (Base ?m)) - r,
                 Available := Available (Balance (RemovePendingOrder acc (COT_ID txn)) (Base ?m)) + r\<rparr>))\<rparr>)"
    using a by (intro refundAfterCancel_sell [OF c(1)])
               (auto simp: Balance_def RemovePendingOrder_def)
  with a acc c(3) show "\<exists>t' acc' book.
                  cancelOrder t owner txn = Inr (True, t') \<and>
                  orderBooks t' ?m = Some book \<and>
                  \<not> inBook book (OrderID_ID (COT_ID txn)) \<and>
                  Account (state t') owner = Some acc' \<and>
                  PendingOrder acc' (COT_ID txn) = None \<and>
                  Balance acc' (Base ?m) =
                    (Balance acc (Base ?m))
                      \<lparr>Pending := Pending (Balance acc (Base ?m)) - r,
                       Available := Available (Balance acc (Base ?m)) + r\<rparr>"
    by (auto simp: cancelOrder_found Account_def updateAccount_def UpdateBalance_def Balance_def
          RemovePendingOrder_def PendingOrder_def)
next
  fix cancel r quoteInfo baseInfo q
  let ?m = "OrderID_Market (COT_ID txn)"
  let ?c = "cancelled t owner acc txn"
  assume a: "PendingOrder acc (COT_ID txn) = Some cancel \<and>
             PO_Executed cancel < Order_Quant (PO_Order cancel) \<and>
             r = Order_Quant (PO_Order cancel) - PO_Executed cancel \<and>
             \<not> Order_SellSide (PO_Order cancel) \<and>
             idToInfo (tokenCache t) (Quote ?m) = Some quoteInfo \<and>
             idToInfo (tokenCache t) (Base ?m) = Some baseInfo \<and>
             calcQuoteQuant r (Decimals quoteInfo) (Order_Price (PO_Order cancel))
               OrderPriceDecimals_u8 (Decimals baseInfo) = Inr q \<and>
             q \<le> Pending (Balance acc (Quote ?m))"
  note c = cancelled_facts [OF acc, of txn]
  have "refundAfterCancel ?c owner cancel ?m = Inr (?c\<lparr>state := updateAccount (state ?c) owner
          (UpdateBalance (RemovePendingOrder acc (COT_ID txn)) (Quote ?m)
             ((Balance (RemovePendingOrder acc (COT_ID txn)) (Quote ?m))
                \<lparr>Pending := Pending (Balance (RemovePendingOrder acc (COT_ID txn)) (Quote ?m)) - q,
                 Available := Available (Balance (RemovePendingOrder acc (COT_ID txn)) (Quote ?m)) + q\<rparr>))\<rparr>)"
    using a by (intro refundAfterCancel_buy [OF c(1), where quoteInfo = quoteInfo and baseInfo = baseInfo])
               (auto simp: c(2) Balance_def RemovePendingOrder_def)
  with a acc c(3) show "\<exists>t' acc' book.
                  cancelOrder t owner txn = Inr (True, t') \<and>
                  orderBooks t' ?m = Some book \<and>
                  \<not> inBook book (OrderID_ID (COT_ID txn)) \<and>
                  Account (state t') owner = Some acc' \<and>
                  PendingOrder acc' (COT_ID txn) = None \<and>
                  Balance acc' (Quote ?m) =
                    (Balance acc (Quote ?m))
                      \<lparr>Pending := Pending (Balance acc (Quote ?m)) - q,
                       Available := Available (Balance acc (Quote ?m)) + q\<rparr>"
    by (auto simp: cancelOrder_found Account_def updateAccount_def UpdateBalance_def Balance_def
          RemovePendingOrder_def PendingOrder_def)
qed


theorem cancelOrder_refund_witness:
  "\<exists>t' acc' book. cancelOrder t0 20 cancel0 = Inr (True, t') \<and>
     orderBooks t' market0 = Some book \<and> \<not> inBook book 1 \<and>
     Account (state t') 20 = Some acc' \<and>
     PendingOrder acc' oid0 = None \<and>
     Balance acc' 1 = \<lparr>Available = 100, Pending = 0, Frozen = []\<rparr>"
proof -
  have acc: "Account (state t0) 20 = Some accB"
    by (simp add: t0_def state0_def Account_def)
  have pre: "PendingOrder accB (COT_ID cancel0) = Some buy0 \<and>
             PO_Executed buy0 < Order_Quant (PO_Order buy0) \<and>
             5 = Order_Quant (PO_Order buy0) - PO_Executed buy0 \<and>
             \<not> Order_SellSide (PO_Order buy0) \<and>
             idToInfo (tokenCache t0) (Quote (OrderID_Market (COT_ID cancel0)))
               = Some \<lparr>Symbol = ''XYZ'', Decimals = 0, TotalUnits = 1000\<rparr> \<and>
             idToInfo (tokenCache t0) (Base (OrderID_Market (COT_ID cancel0)))
               = Some \<lparr>Symbol = ''ABC'', Decimals = 0, TotalUnits = 1000\<rparr> \<and>
             calcQuoteQuant 5 (Decimals \<lparr>Symbol = ''XYZ'', Decimals = 0, TotalUnits = 1000\<rparr>)
               (Order_Price (PO_Order buy0)) OrderPriceDecimals_u8
               (Decimals \<lparr>Symbol = ''ABC'', Decimals = 0, TotalUnits = 1000\<rparr>) = Inr 10 \<and>
             10 \<le> Pending (Balance accB (Quote (OrderID_Market (COT_ID cancel0))))"
    by (simp add: cancel0_def accB_def buy0_def oid0_def market0_def t0_def cache0_def
          PendingOrder_def Balance_def idToInfo_def calcQuoteQuant_def Pow10_uint64_def
          OrderPriceDecimals_def)
  from cancelOrder_refund [OF acc, of cancel0, THEN conjunct2, THEN conjunct2, rule_format, OF pre]
  show ?thesis
    by (simp add: cancel0_def oid0_def market0_def accB_def Balance_def)
qed

subsection \<open>placeOrder: an execution on a buy order\<close>






subsection \<open>The validator predicates do not panic\<close>

text \<open>
  The claim C9 as stated fails: with a beacon whose \<open>Rank\<close> always returns rank 0 and no
  error, but whose \<open>groups\<close> slice is empty, \<open>ValidateBlock\<close> reaches the index expression
  \<open>groups[nt]\<close> with \<open>nt = 0\<close> and panics.
\<close>

theorem ValidateBlock_panics_counterexample:
  "Rank (RandomBeacon (chain validatorNoGroups)) = (\<lambda>owner round. Inr 0) \<and>
   ValidateBlock validatorNoGroups block0 = Inl IndexOutOfRange"
  by (simp add: ValidateBlock_def validatorNoGroups_def beaconNoGroups_def bls0_def block0_def)

lemma rankToWeight_nonneg: "0 \<le> rank \<Longrightarrow> \<exists>w. rankToWeight rank = Inr w"
  by (simp add: rankToWeight_def)

text \<open>
  Claim C9, amended. Assume that \<open>RandomBeacon.Rank\<close> returns a rank that is not negative
  whenever it returns no error, and that the notarization committee \<open>nt\<close> returned by
  \<open>RandomBeacon.Committees\<close> is an index of \<open>RandomBeacon.groups\<close>. Then \<open>ValidateBlock\<close>
  returns a pair (it does not panic, so the panic of \<open>rankToWeight\<close> is not reached), and it
  returns \<open>(0, false)\<close> when the block's round is above the beacon's depth, the
  signature does not deserialize, the group signature does not verify, or the rank lookup
  fails. The four other predicates have no panicking step; each returns \<open>false\<close> (with a
  zero first component where it has one) when its round check fails.
\<close>

theorem validators_never_panic:
  assumes rank: "\<forall>owner round r. Rank (RandomBeacon (chain v)) owner round = Inr r \<longrightarrow> 0 \<le> r"
    and nt: "\<forall>round rb bp nt. Committees (RandomBeacon (chain v)) round = (rb, bp, nt)
               \<longrightarrow> 0 \<le> nt \<and> nt < int (length (groups (RandomBeacon (chain v))))"
  shows "(\<exists>w ok. ValidateBlock v b = Inr (w, ok)) \<and>
         (\<forall>rb bp nt.
            Committees (RandomBeacon (chain v)) (Block_Round b) = (rb, bp, nt) \<and>
            (Depth (RandomBeacon (chain v)) < Block_Round b \<or>
             (\<exists>err. Deserialize (sig_lib v) (Block_NotarizationSig b) = Inl err) \<or>
             (\<exists>sign. Deserialize (sig_lib v) (Block_NotarizationSig b) = Inr sign \<and>
                \<not> Verify (sig_lib v) sign (groups (RandomBeacon (chain v)) ! nat nt)
                     (Block_Encode b False)) \<or>
             (\<exists>err. Rank (RandomBeacon (chain v)) (Block_Owner b) (Block_Round b) = Inl err))
            \<longrightarrow> ValidateBlock v b = Inr (FZero, False)) \<and>
         (BP_Round bp \<noteq> Round (chain v) \<longrightarrow> ValidateBlockProposal v bp = (FZero, False)) \<and>
         (NtShare_Round n \<noteq> Round (chain v) \<longrightarrow> ValidateNtShare v n = (0, False)) \<and>
         (RBS_Round r \<noteq> Depth (RandomBeacon (chain v)) \<longrightarrow> \<not> ValidateRandBeaconSig v r) \<and>
         (RBSS_Round rs \<noteq> Depth (RandomBeacon (chain v))
            \<longrightarrow> ValidateRandBeaconSigShare v rs = (0, False))"
proof (intro conjI allI impI)
  obtain rb bp nt where c: "Committees (RandomBeacon (chain v)) (Block_Round b) = (rb, bp, nt)"
    by (cases "Committees (RandomBeacon (chain v)) (Block_Round b)") auto
  with nt have r: "\<not> (nt < 0 \<or> int (length (groups (RandomBeacon (chain v)))) \<le> nt)"
    by fastforce
  show "\<exists>w ok. ValidateBlock v b = Inr (w, ok)"
  proof (cases "Rank (RandomBeacon (chain v)) (Block_Owner b) (Block_Round b)")
    case (Inl err)
    with c r show ?thesis
      by (auto simp: ValidateBlock_def Let_def split: sum.splits)
  next
    case (Inr k)
    with rank have "0 \<le> k" by blast
    then obtain w where "rankToWeight k = Inr w" using rankToWeight_nonneg by blast
    with c r Inr show ?thesis
      by (auto simp: ValidateBlock_def Let_def split: sum.splits)
  qed
next
  fix rb bp nt'
  assume a: "Committees (RandomBeacon (chain v)) (Block_Round b) = (rb, bp, nt') \<and>
            (Depth (RandomBeacon (chain v)) < Block_Round b \<or>
             (\<exists>err. Deserialize (sig_lib v) (Block_NotarizationSig b) = Inl err) \<or>
             (\<exists>sign. Deserialize (sig_lib v) (Block_NotarizationSig b) = Inr sign \<and>
                \<not> Verify (sig_lib v) sign (groups (RandomBeacon (chain v)) ! nat nt')
                     (Block_Encode b False)) \<or>
             (\<exists>err. Rank (RandomBeacon (chain v)) (Block_Owner b) (Block_Round b) = Inl err))"
  with nt have r: "\<not> (nt' < 0 \<or> int (length (groups (RandomBeacon (chain v)))) \<le> nt')"
    by fastforce
  with a show "ValidateBlock v b = Inr (FZero, False)"
    by (auto simp: ValidateBlock_def Let_def split: sum.splits)
qed (simp_all add: ValidateBlockProposal_def ValidateNtShare_def ValidateRandBeaconSig_def
       ValidateRandBeaconSigShare_def Let_def)

theorem validators_never_panic_witness:
  "ValidateBlock validator0 block0 = Inr (HalfPow 2, True) \<and>
   ValidateBlock validator0 (block0\<lparr>Block_Owner := 11\<rparr>) = Inr (FZero, False) \<and>
   ValidateBlockProposal validator0 \<lparr>BP_Round = 9\<rparr> = (FZero, False)"
proof -
  have "\<forall>owner round r. Rank (RandomBeacon (chain validator0)) owner round = Inr r \<longrightarrow> 0 \<le> r"
    and "\<forall>round rb bp nt. Committees (RandomBeacon (chain validator0)) round = (rb, bp, nt)
               \<longrightarrow> 0 \<le> nt \<and> nt < int (length (groups (RandomBeacon (chain validator0))))"
    by (auto simp: validator0_def beacon0_def split: if_splits)
  from validators_never_panic [OF this, of block0 "\<lparr>BP_Round = 9\<rparr>"]
       validators_never_panic [OF this, of "block0\<lparr>Block_Owner := 11\<rparr>"]
  show ?thesis
    by (simp add: ValidateBlock_def rankToWeight_def validator0_def beacon0_def bls0_def block0_def)
qed

subsection \<open>removeFilledOrderFromExpiration always purges the persisted schedule\<close>

text \<open>
  \<open>removed\<close> is the new length minus the old one, so it is never positive, while the count
  \<open>toRemove\<close> of a key of \<open>rounds\<close> is at least one: the test \<open>removed == toRemove\<close> fails for
  every round the loop visits.
\<close>

lemma removedEqualsToRemove_never:
  assumes "0 < toRemove"
  shows "\<not> removedEqualsToRemove exps (filter P exps) toRemove"
proof -
  have "length (filter P exps) \<le> length exps"
    by simp
  then have "int (length (filter P exps)) - int (length exps) \<le> 0"
    by linarith
  with assms have "int (length (filter P exps)) - int (length exps) \<noteq> toRemove"
    by linarith
  then show ?thesis
    by (simp add: removedEqualsToRemove_def Let_def)
qed

text \<open>
  Claim C3, on the code. One filled order expires at round 9 and its entry is staged in
  \<open>t.expirations[9]\<close>. The loop drops the staged entry, so the number of entries dropped
  equals the number of filled orders of the round (one), and by the claim the persisted
  schedule is left alone. The code's test \<open>removed == toRemove\<close> compares \<open>-1\<close> with \<open>1\<close>,
  fails, and \<open>State.RemoveOrderExpirations(9, filled)\<close> is called.
\<close>

theorem removeFilled_purges_persisted_when_all_staged_dropped:
  "roundsCount (filledOrders tFilled) 9 = 1 \<and>
   expirations tFilled 9 = Some [expiration0] \<and>
   filter (\<lambda>exp. OE_ID exp \<notin> set (filledIDs (filledOrders tFilled))) [expiration0] = [] \<and>
   \<not> removedEqualsToRemove [expiration0] [] 1 \<and>
   removeFilledOrderFromExpiration [9] tFilled =
     tFilled\<lparr>expirations := [9 \<mapsto> []],
             state := RemoveOrderExpirations (state tFilled) 9 [oid0]\<rparr>"
  by (simp add: removeFilledOrderFromExpiration_def removeFilledRound_def removedEqualsToRemove_def
        roundsCount_def filledIDs_def tFilled_def filled0_def buy0_def expiration0_def Let_def)

subsection \<open>finalizeState does not depend on the order of map iteration\<close>

lemma rangeOf_mset: "rangeOf K ks \<Longrightarrow> rangeOf K ks' \<Longrightarrow> mset ks = mset ks'"
  by (metis rangeOf_def set_eq_iff_mset_eq_distinct)

lemma removeFilledRound_commute:
  "removeFilledRound filled rounds r (removeFilledRound filled rounds r' t) =
   removeFilledRound filled rounds r' (removeFilledRound filled rounds r t)"
proof (cases "r = r'")
  case True
  then show ?thesis by simp
next
  case False
  then have tw: "\<And>(m :: _ \<Rightarrow> _) x y. (m(r := x))(r' := y) = (m(r' := y))(r := x)"
    by (auto simp: fun_eq_iff)
  from False show ?thesis
    by (simp add: removeFilledRound_def Let_def RemoveOrderExpirations_def tw)
qed

lemma removeFilledOrderFromExpiration_order:
  assumes "mset ks = mset ks'"
  shows "removeFilledOrderFromExpiration ks t = removeFilledOrderFromExpiration ks' t"
proof -
  have "fold (removeFilledRound (filledIDs (filledOrders t)) (roundsCount (filledOrders t))) ks =
        fold (removeFilledRound (filledIDs (filledOrders t)) (roundsCount (filledOrders t))) ks'"
  proof (rule fold_multiset_equiv)
    show "mset ks = mset ks'" by (rule assms)
  qed (rule ext, simp only: o_apply, rule removeFilledRound_commute)
  then show ?thesis by (simp add: removeFilledOrderFromExpiration_def)
qed

lemma recordStep_commute: "recordStep r (recordStep r' t) = recordStep r' (recordStep r t)"
proof (cases "r = r'")
  case True
  then show ?thesis by simp
next
  case False
  then have tw: "\<And>(m :: _ \<Rightarrow> _) x y. (m(r := x))(r' := y) = (m(r' := y))(r := x)"
    by (auto simp: fun_eq_iff)
  from False show ?thesis
    by (simp add: recordStep_def AddOrderExpirations_def tw split: option.splits)
qed

lemma recordOrderExpirations_order:
  assumes "mset ks = mset ks'"
  shows "recordOrderExpirations ks t = recordOrderExpirations ks' t"
proof -
  have "fold recordStep ks = fold recordStep ks'"
  proof (rule fold_multiset_equiv)
    show "mset ks = mset ks'" by (rule assms)
  qed (rule ext, simp only: o_apply, rule recordStep_commute)
  then show ?thesis
    by (simp add: recordOrderExpirations_def)
qed

lemma saveStep_commute: "saveStep m (saveStep m' t) = saveStep m' (saveStep m t)"
proof (cases "m = m'")
  case True
  then show ?thesis by simp
next
  case False
  then have tw: "\<And>(f :: _ \<Rightarrow> _) x y. (f(m := x))(m' := y) = (f(m' := y))(m := x)"
    by (auto simp: fun_eq_iff)
  from False show ?thesis
    by (simp add: saveStep_def saveOrderBook_def tw split: option.splits)
qed

lemma saveDirtyOrderBooks_order:
  assumes "mset ks = mset ks'"
  shows "saveDirtyOrderBooks ks t = saveDirtyOrderBooks ks' t"
proof -
  have "fold saveStep ks = fold saveStep ks'"
  proof (rule fold_multiset_equiv)
    show "mset ks = mset ks'" by (rule assms)
  qed (rule ext, simp only: o_apply, rule saveStep_commute)
  then show ?thesis
    by (simp add: saveDirtyOrderBooks_def)
qed

text \<open>
  Claim C5. \<open>Record\<close> contains no loop over a map, so the transition reached from a prior
  State, a round and an ordered batch is a function of the three. What Go leaves open in
  \<open>StateHash\<close> is the order in which \<open>finalizeState\<close> visits the keys of \<open>rounds\<close>,
  \<open>t.expirations\<close> and \<open>t.orderBooks\<close>. For any two orders that visit every key of each map
  once, \<open>finalizeState\<close> yields the same result (the same committed State and transition, or
  the same panic) and \<open>StateHash\<close> the same hash.
\<close>

theorem StateHash_deterministic:
  assumes v: "visitsEachKeyOnce t ro" and v': "visitsEachKeyOnce t ro'"
  shows "StateHash X ro t = StateHash X ro' t \<and> finalizeState X ro t = finalizeState X ro' t"
proof -
  let ?t1 = "removeFilledOrderFromExpiration (roundsOrder ro) t"
  let ?t1' = "removeFilledOrderFromExpiration (roundsOrder ro') t"
  let ?t2 = "recordOrderExpirations (expirationsOrder ro) ?t1"
  let ?t2' = "recordOrderExpirations (expirationsOrder ro') ?t1'"
  from v have r: "rangeOf (roundsKeys (filledOrders t)) (roundsOrder ro)"
    and e: "rangeOf (dom (expirations ?t1)) (expirationsOrder ro)"
    and b: "case expireOrders ?t2 of Inl e \<Rightarrow> True
            | Inr t3 \<Rightarrow> rangeOf (dom (orderBooks t3)) (orderBooksOrder ro)"
    by (simp_all add: visitsEachKeyOnce_def Let_def)
  from v' have r': "rangeOf (roundsKeys (filledOrders t)) (roundsOrder ro')"
    and e': "rangeOf (dom (expirations ?t1')) (expirationsOrder ro')"
    and b': "case expireOrders ?t2' of Inl e \<Rightarrow> True
            | Inr t3 \<Rightarrow> rangeOf (dom (orderBooks t3)) (orderBooksOrder ro')"
    by (simp_all add: visitsEachKeyOnce_def Let_def)
  have t1: "?t1' = ?t1"
    by (rule removeFilledOrderFromExpiration_order) (rule rangeOf_mset [OF r' r])
  from e' have "rangeOf (dom (expirations ?t1)) (expirationsOrder ro')"
    by (simp only: t1)
  then have "mset (expirationsOrder ro') = mset (expirationsOrder ro)"
    using e by (rule rangeOf_mset)
  then have "recordOrderExpirations (expirationsOrder ro') ?t1 = ?t2"
    by (rule recordOrderExpirations_order)
  then have t2: "?t2' = ?t2"
    by (simp only: t1)
  have fin: "finalizeState X ro t = finalizeState X ro' t"
  proof (cases "expireOrders ?t2")
    case (Inl e)
    then show ?thesis
      by (simp add: finalizeState_def Let_def t2)
  next
    case (Inr t3)
    from b Inr have "rangeOf (dom (orderBooks t3)) (orderBooksOrder ro)"
      by simp
    moreover from b' Inr have "rangeOf (dom (orderBooks t3)) (orderBooksOrder ro')"
      by (simp add: t2)
    ultimately have "mset (orderBooksOrder ro) = mset (orderBooksOrder ro')"
      by (rule rangeOf_mset)
    then have "saveDirtyOrderBooks (orderBooksOrder ro) t3 = saveDirtyOrderBooks (orderBooksOrder ro') t3"
      by (rule saveDirtyOrderBooks_order)
    with Inr show ?thesis
      by (simp add: finalizeState_def Let_def t2)
  qed
  then show ?thesis by (simp add: StateHash_def)
qed

theorem StateHash_deterministic_witness:
  "StateHash X0 orderA tTwo = StateHash X0 orderB tTwo \<and>
   finalizeState X0 orderA tTwo = finalizeState X0 orderB tTwo"
proof -
  have a: "visitsEachKeyOnce tTwo orderA"
    by (auto simp: visitsEachKeyOnce_def orderA_def rangeOf_def roundsKeys_def filled0_def buy0_def filledIDs_def roundsCount_def Let_def
          recordOrderExpirations_def recordStep_def removeFilledOrderFromExpiration_def removeFilledRound_def
          expireOrders_def GetOrderExpirations_def AddOrderExpirations_def RemoveOrderExpirations_def
          tTwo_def t0_def state0_def market0_def market1_def
          split: sum.splits)
  have b: "visitsEachKeyOnce tTwo orderB"
    by (auto simp: visitsEachKeyOnce_def orderB_def rangeOf_def roundsKeys_def filled0_def buy0_def filledIDs_def roundsCount_def Let_def
          recordOrderExpirations_def recordStep_def removeFilledOrderFromExpiration_def removeFilledRound_def
          expireOrders_def GetOrderExpirations_def AddOrderExpirations_def RemoveOrderExpirations_def
          tTwo_def t0_def state0_def market0_def market1_def
          split: sum.splits)
  from StateHash_deterministic [OF a b] show ?thesis .
qed

end
